theory Spec2Isabelle
  imports Main "HOL-Library.Word"
begin

section \<open>The player of \<^verbatim>\<open>src/Player/AudioPlayer.cpp\<close>\<close>

text \<open>
  The development follows \<^verbatim>\<open>AudioPlayer.cpp\<close> function by function. Values of
  type \<^verbatim>\<open>SInt64\<close> (frame counters, time stamps, frame numbers) are integers: the
  counters count audio frames and stay far below \<open>2 ^ 63\<close>. Every
  \<^verbatim>\<open>static_cast<UInt32>\<close> of the source is written out as a reduction modulo
  \<open>2 ^ 32\<close>. What the platform and the decoders answer (the result of
  \<^verbatim>\<open>AudioDeviceStart\<close>, of \<^verbatim>\<open>ReadAudio\<close>, of \<^verbatim>\<open>pthread_mutex_lock\<close>, ...) is an
  argument of the function that asks, and the calls that leave the player (device,
  semaphores, converter, decoder callbacks) are appended to a log in the order in which
  they are made.
\<close>

unbundle bit_operations_syntax

subsection \<open>Constants\<close>

type_synonym SInt64 = int

definition RING_BUFFER_SIZE_FRAMES :: int where
  "RING_BUFFER_SIZE_FRAMES = 16384"

definition RING_BUFFER_WRITE_CHUNK_SIZE_FRAMES :: int where
  "RING_BUFFER_WRITE_CHUNK_SIZE_FRAMES = 2048"

text \<open>
  Modelled from the spec: \<^verbatim>\<open>kActiveDecoderArraySize\<close>, the size of
  \<^verbatim>\<open>mActiveDecoders\<close>, is declared in the header, which is not among the sources; the
  spec gives the active set 8 slots. No proof below depends on the number.
\<close>

definition kActiveDecoderArraySize :: nat where
  "kActiveDecoderArraySize = 8"

text \<open>\<^verbatim>\<open>static_cast<UInt32>(x)\<close> for a 64-bit \<open>x\<close>.\<close>

definition UInt32 :: "int \<Rightarrow> int" where
  "UInt32 x = x mod 2 ^ 32"

text \<open>
  Constants of the platform's headers: the two status codes for success, and the format
  flag for one buffer per channel, \<^verbatim>\<open>1 << 5\<close>.
\<close>

definition noErr :: int where
  "noErr = 0"

definition kAudioHardwareNoError :: int where
  "kAudioHardwareNoError = 0"

definition kAudioFormatFlagIsNonInterleaved :: "32 word" where
  "kAudioFormatFlagIsNonInterleaved = 0x20"

subsection \<open>Data\<close>

text \<open>
  \<^verbatim>\<open>AudioStreamBasicDescription\<close>: a 64-bit float (kept as its bit pattern) and eight
  32-bit fields, 40 bytes without padding, so that \<^verbatim>\<open>memcmp\<close> of two descriptions is 0
  exactly when the records are equal.
\<close>

record AudioStreamBasicDescription =
  mSampleRate :: "64 word"
  mFormatID :: "32 word"
  mFormatFlags :: "32 word"
  mBytesPerPacket :: "32 word"
  mFramesPerPacket :: "32 word"
  mBytesPerFrame :: "32 word"
  mChannelsPerFrame :: "32 word"
  mBitsPerChannel :: "32 word"
  mReserved :: "32 word"

text \<open>
  A decoder, as far as the player looks at it without changing it: the object itself
  (its address), \<^verbatim>\<open>GetFormat()\<close> and \<^verbatim>\<open>SupportsSeeking()\<close>.
\<close>

record AudioDecoder =
  decoderAddress :: nat
  GetFormat :: AudioStreamBasicDescription
  SupportsSeeking :: bool

text \<open>
  \<^verbatim>\<open>DecoderStateData\<close>, with the fields \<^verbatim>\<open>AudioPlayer.cpp\<close> reads and writes. Its
  \<^verbatim>\<open>mFramesRendered\<close> is \<open>mFramesRenderedD\<close> here, the player has a counter of
  the same name.
\<close>

record DecoderStateData =
  mDecoder :: AudioDecoder
  mTimeStamp :: SInt64
  mTotalFrames :: SInt64
  mFramesRenderedD :: SInt64
  mFrameToSeek :: SInt64
  mKeepDecoding :: bool
  mReadyForCollection :: bool

datatype AudioPlayerFlag = eAudioPlayerFlagVirtualFormatChanged | eAudioPlayerFlagIsSeeking

text \<open>The calls that leave the player.\<close>

datatype effect =
    AudioDeviceStart
  | AudioDeviceStop
  | SignalDecoderSemaphore
  | SignalCollectorSemaphore
  | ResetOutputCall
  | AudioConverterReset
  | AudioConverterDisposeCall nat
  | AudioConverterNewCall AudioStreamBasicDescription AudioStreamBasicDescription
  | RingBufferAllocate "32 word" "32 word" int
  | RingBufferStore int SInt64
  | PerformDecodingStartedCallback nat
  | PerformDecodingFinishedCallback nat
  | PerformRenderingStartedCallback nat
  | PerformRenderingFinishedCallback nat

text \<open>
  The player. \<^verbatim>\<open>mActiveDecoders\<close> is an array of \<^verbatim>\<open>kActiveDecoderArraySize\<close>
  pointers, read and written at indices below that size only: a function from the index
  to the state the slot points to, \<open>None\<close> for \<^verbatim>\<open>NULL\<close>. A pointer to a decoder
  state is the index of its slot. \<^verbatim>\<open>mConverter\<close> is the converter the platform made,
  \<^verbatim>\<open>mConversionBuffer\<close> the buffer list with the channels and the byte size of each
  buffer (the zeroed memory itself is not kept); \<open>None\<close> is \<^verbatim>\<open>NULL\<close> for both.
\<close>

record AudioBuffer =
  mNumberChannels :: "32 word"
  mDataByteSize :: "32 word"

type_synonym AudioBufferList = "AudioBuffer list"

record AudioPlayer =
  mIsPlaying :: bool
  mFlags :: "AudioPlayerFlag set"
  mDecoderQueue :: "AudioDecoder list"
  mActiveDecoders :: "nat \<Rightarrow> DecoderStateData option"
  mRingBufferFormat :: AudioStreamBasicDescription
  mStreamVirtualFormat :: AudioStreamBasicDescription
  mConverter :: "nat option"
  mConversionBuffer :: "AudioBufferList option"
  mFramesDecoded :: SInt64
  mFramesRendered :: SInt64
  mFramesRenderedLastPass :: SInt64
  effects :: "effect list"

definition perform :: "effect \<Rightarrow> AudioPlayer \<Rightarrow> AudioPlayer" where
  "perform e p = p\<lparr>effects := effects p @ [e]\<rparr>"

subsection \<open>\<^verbatim>\<open>GetCurrentDecoderState\<close>\<close>

text \<open>
  One pass of the loop body at \<open>bufferIndex\<close>, with \<open>result\<close> as it stands before
  the pass. The stored \<open>result\<close> is the slot index together with the state read there.
\<close>

definition current_pass ::
  "(nat \<Rightarrow> DecoderStateData option) \<Rightarrow> nat \<Rightarrow> (nat \<times> DecoderStateData) option
    \<Rightarrow> (nat \<times> DecoderStateData) option" where
  "current_pass slots bufferIndex result =
     (case slots bufferIndex of
        None \<Rightarrow> result
      | Some decoderState \<Rightarrow>
          if mReadyForCollection decoderState then result
          else if mTotalFrames decoderState = mFramesRenderedD decoderState then result
          else (case result of
                  None \<Rightarrow> Some (bufferIndex, decoderState)
                | Some (r, resultState) \<Rightarrow>
                    if mTimeStamp decoderState < mTimeStamp resultState
                    then Some (bufferIndex, decoderState)
                    else result))"

text \<open>\<open>current_scan slots n\<close>: \<open>result\<close> after the passes for the indices below \<open>n\<close>.\<close>

primrec current_scan ::
  "(nat \<Rightarrow> DecoderStateData option) \<Rightarrow> nat \<Rightarrow> (nat \<times> DecoderStateData) option" where
  "current_scan slots 0 = None"
| "current_scan slots (Suc n) = current_pass slots n (current_scan slots n)"

definition GetCurrentDecoderState :: "AudioPlayer \<Rightarrow> (nat \<times> DecoderStateData) option" where
  "GetCurrentDecoderState p = current_scan (mActiveDecoders p) kActiveDecoderArraySize"

subsection \<open>\<^verbatim>\<open>GetCurrentFrame\<close>\<close>

definition GetCurrentFrame :: "AudioPlayer \<Rightarrow> SInt64" where
  "GetCurrentFrame p =
     (case GetCurrentDecoderState p of
        None \<Rightarrow> - 1
      | Some (i, currentDecoderState) \<Rightarrow>
          if - 1 = mFrameToSeek currentDecoderState
          then mFramesRenderedD currentDecoderState
          else mFrameToSeek currentDecoderState)"

subsection \<open>\<^verbatim>\<open>GetDecoderStateStartingAfterTimeStamp\<close>\<close>

text \<open>
  The second test of the source dereferences \<open>result\<close> only behind
  \<^verbatim>\<open>mTimeStamp > timeStamp\<close>, which the first test has refuted when \<open>result\<close> is
  \<^verbatim>\<open>NULL\<close>: with no result yet the pass keeps \<^verbatim>\<open>NULL\<close>.
\<close>

definition after_pass ::
  "(nat \<Rightarrow> DecoderStateData option) \<Rightarrow> SInt64 \<Rightarrow> nat \<Rightarrow> (nat \<times> DecoderStateData) option
    \<Rightarrow> (nat \<times> DecoderStateData) option" where
  "after_pass slots timeStamp bufferIndex result =
     (case slots bufferIndex of
        None \<Rightarrow> result
      | Some decoderState \<Rightarrow>
          if mReadyForCollection decoderState then result
          else (case result of
                  None \<Rightarrow>
                    if timeStamp < mTimeStamp decoderState
                    then Some (bufferIndex, decoderState)
                    else result
                | Some (r, resultState) \<Rightarrow>
                    if timeStamp < mTimeStamp decoderState
                       \<and> mTimeStamp decoderState < mTimeStamp resultState
                    then Some (bufferIndex, decoderState)
                    else result))"

primrec after_scan ::
  "(nat \<Rightarrow> DecoderStateData option) \<Rightarrow> SInt64 \<Rightarrow> nat \<Rightarrow> (nat \<times> DecoderStateData) option" where
  "after_scan slots timeStamp 0 = None"
| "after_scan slots timeStamp (Suc n) =
     after_pass slots timeStamp n (after_scan slots timeStamp n)"

definition GetDecoderStateStartingAfterTimeStamp ::
  "AudioPlayer \<Rightarrow> SInt64 \<Rightarrow> (nat \<times> DecoderStateData) option" where
  "GetDecoderStateStartingAfterTimeStamp p timeStamp =
     after_scan (mActiveDecoders p) timeStamp kActiveDecoderArraySize"

subsection \<open>\<^verbatim>\<open>Play\<close>, \<^verbatim>\<open>Pause\<close>, \<^verbatim>\<open>Stop\<close>\<close>

text \<open>
  Modelled from the spec: \<^verbatim>\<open>IsPlaying\<close> is an inline accessor of the header, which is not
  among the sources; the spec calls \<^verbatim>\<open>mIsPlaying\<close> the is-playing flag that \<^verbatim>\<open>Play\<close> and
  \<^verbatim>\<open>Pause\<close> set.
\<close>

definition IsPlaying :: "AudioPlayer \<Rightarrow> bool" where
  "IsPlaying p = mIsPlaying p"

text \<open>
  \<^verbatim>\<open>StartOutput\<close> and \<^verbatim>\<open>StopOutput\<close> call the device and answer whether the call
  returned \<^verbatim>\<open>kAudioHardwareNoError\<close>; that answer is the argument \<open>noError\<close>.
\<close>

definition StartOutput :: "bool \<Rightarrow> AudioPlayer \<Rightarrow> bool \<times> AudioPlayer" where
  "StartOutput noError p = (noError, perform AudioDeviceStart p)"

definition StopOutput :: "bool \<Rightarrow> AudioPlayer \<Rightarrow> bool \<times> AudioPlayer" where
  "StopOutput noError p = (noError, perform AudioDeviceStop p)"

definition ResetOutput :: "AudioPlayer \<Rightarrow> bool \<times> AudioPlayer" where
  "ResetOutput p = (True, perform ResetOutputCall p)"

definition Play :: "bool \<Rightarrow> AudioPlayer \<Rightarrow> AudioPlayer" where
  "Play noError p =
     (if IsPlaying p then p
      else (case StartOutput noError p of (started, p') \<Rightarrow> p'\<lparr>mIsPlaying := started\<rparr>))"

definition Pause :: "bool \<Rightarrow> AudioPlayer \<Rightarrow> AudioPlayer" where
  "Pause noError p =
     (if False = IsPlaying p then p
      else (case StopOutput noError p of (stopped, p') \<Rightarrow> p'\<lparr>mIsPlaying := (False = stopped)\<rparr>))"

text \<open>The loop of \<^verbatim>\<open>StopActiveDecoders\<close> after the passes for the indices below \<open>n\<close>.\<close>

primrec stop_scan ::
  "(nat \<Rightarrow> DecoderStateData option) \<Rightarrow> nat \<Rightarrow> (nat \<Rightarrow> DecoderStateData option)" where
  "stop_scan slots 0 = slots"
| "stop_scan slots (Suc n) =
     (let slots' = stop_scan slots n in
      case slots' n of
        None \<Rightarrow> slots'
      | Some decoderState \<Rightarrow>
          slots'(n := Some (decoderState\<lparr>mKeepDecoding := False, mReadyForCollection := True\<rparr>)))"

definition StopActiveDecoders :: "AudioPlayer \<Rightarrow> AudioPlayer" where
  "StopActiveDecoders p =
     perform SignalCollectorSemaphore
       (perform SignalDecoderSemaphore
          (p\<lparr>mActiveDecoders := stop_scan (mActiveDecoders p) kActiveDecoderArraySize\<rparr>))"

definition Stop :: "bool \<Rightarrow> AudioPlayer \<Rightarrow> AudioPlayer" where
  "Stop noError p =
     (let p1 = Pause noError p;
          p2 = StopActiveDecoders p1;
          p3 = snd (ResetOutput p2)
      in p3\<lparr>mFramesDecoded := 0, mFramesRendered := 0\<rparr>)"

subsection \<open>\<^verbatim>\<open>SeekToFrame\<close>\<close>

text \<open>
  \<^verbatim>\<open>OSAtomicCompareAndSwap64Barrier(oldValue, newValue, theValue)\<close>: with the cell
  holding \<open>cell\<close>, whether the swap happened and what the cell holds afterwards.
\<close>

definition OSAtomicCompareAndSwap64Barrier :: "SInt64 \<Rightarrow> SInt64 \<Rightarrow> SInt64 \<Rightarrow> bool \<times> SInt64" where
  "OSAtomicCompareAndSwap64Barrier oldValue newValue cell =
     (if cell = oldValue then (True, newValue) else (False, cell))"

definition set_state :: "nat \<Rightarrow> DecoderStateData \<Rightarrow> AudioPlayer \<Rightarrow> AudioPlayer" where
  "set_state i s p = p\<lparr>mActiveDecoders := (mActiveDecoders p)(i := Some s)\<rparr>"

text \<open>
  \<^verbatim>\<open>SeekToFrame\<close> loads \<^verbatim>\<open>mFrameToSeek\<close> for the first argument of the swap and then
  swaps. \<open>written\<close> is what another thread stores in the slot between the load and the
  swap: \<open>None\<close> when no thread does, which is every call made with the other threads at
  rest. The source asserts \<open>0 \<le> frame\<close>.
\<close>

definition SeekToFrame :: "SInt64 \<Rightarrow> SInt64 option \<Rightarrow> AudioPlayer \<Rightarrow> bool \<times> AudioPlayer" where
  "SeekToFrame frame written p =
     (case GetCurrentDecoderState p of
        None \<Rightarrow> (False, p)
      | Some (i, currentDecoderState) \<Rightarrow>
          if False = SupportsSeeking (mDecoder currentDecoderState) then (False, p)
          else
            let oldValue = mFrameToSeek currentDecoderState;
                cell = (case written of None \<Rightarrow> oldValue | Some v \<Rightarrow> v);
                swap = OSAtomicCompareAndSwap64Barrier oldValue frame cell;
                p' = set_state i (currentDecoderState\<lparr>mFrameToSeek := snd swap\<rparr>) p
            in if False = fst swap then (False, p')
               else (True, perform SignalDecoderSemaphore p'))"

subsection \<open>\<^verbatim>\<open>Enqueue\<close>\<close>

text \<open>
  \<^verbatim>\<open>allocateBufferList\<close>: one buffer for all channels, or one per channel. What
  \<^verbatim>\<open>calloc\<close> returns is not looked at by the source.
\<close>

definition allocateBufferList :: "32 word \<Rightarrow> 32 word \<Rightarrow> bool \<Rightarrow> 32 word \<Rightarrow> AudioBufferList" where
  "allocateBufferList channelsPerFrame bytesPerFrame interleaved capacityFrames =
     (let numBuffers = (if interleaved then 1 else channelsPerFrame);
          channelsPerBuffer = (if interleaved then channelsPerFrame else 1)
      in replicate (unat numBuffers)
           \<lparr>mNumberChannels = channelsPerBuffer,
            mDataByteSize = capacityFrames * bytesPerFrame\<rparr>)"

text \<open>
  What the platform answers during \<^verbatim>\<open>CreateConverterAndConversionBuffer\<close>: the status
  of \<^verbatim>\<open>AudioConverterNew\<close> and the converter it made; the status of the query for
  \<^verbatim>\<open>kAudioDevicePropertyBufferFrameSize\<close> and the frames it reports; the status of the
  query for \<^verbatim>\<open>kAudioConverterPropertyCalculateInputBufferSize\<close> and the input size it
  writes over the output size it is given.
\<close>

record converter_answers =
  converterNewResult :: int
  newConverter :: nat
  bufferFrameSizeResult :: int
  bufferSizeFrames :: "32 word"
  inputBufferSizeResult :: int
  calculateInputBufferSize :: "32 word \<Rightarrow> 32 word"

text \<open>
  \<^verbatim>\<open>CreateConverterAndConversionBuffer\<close>: what it returns and the player afterwards.
  A converter that \<^verbatim>\<open>AudioConverterNew\<close> fails to make leaves \<^verbatim>\<open>mConverter\<close> at
  \<^verbatim>\<open>NULL\<close>. The last division is one of \<^verbatim>\<open>UInt32\<close>; with a ring buffer format of
  0 bytes per frame it divides by zero, for which C++ defines no result: \<open>None\<close>.
\<close>

definition CreateConverterAndConversionBuffer ::
  "converter_answers \<Rightarrow> AudioPlayer \<Rightarrow> (bool \<times> AudioPlayer) option" where
  "CreateConverterAndConversionBuffer a p =
     (let p1 = (case mConverter p of
                  None \<Rightarrow> p
                | Some converter \<Rightarrow>
                    (perform (AudioConverterDisposeCall converter) p)\<lparr>mConverter := None\<rparr>);
          p2 = (if mConversionBuffer p1 \<noteq> None then p1\<lparr>mConversionBuffer := None\<rparr> else p1);
          p3 = perform (AudioConverterNewCall (mRingBufferFormat p2) (mStreamVirtualFormat p2)) p2
      in
      if noErr \<noteq> converterNewResult a then Some (False, p3)
      else
        let p4 = p3\<lparr>mConverter := Some (newConverter a)\<rparr> in
        if kAudioHardwareNoError \<noteq> bufferFrameSizeResult a then Some (False, p4)
        else
          let virtualFormatIsInterleaved =
                (kAudioFormatFlagIsNonInterleaved AND mFormatFlags (mStreamVirtualFormat p4) = 0);
              virtualFormatNumberInterleavedChannels =
                (if virtualFormatIsInterleaved
                 then mChannelsPerFrame (mStreamVirtualFormat p4) else 1);
              bufferSizeBytes =
                bufferSizeFrames a * mBytesPerFrame (mStreamVirtualFormat p4)
                  * virtualFormatNumberInterleavedChannels
          in
          if noErr \<noteq> inputBufferSizeResult a then Some (False, p4)
          else
            let inputSizeBytes = calculateInputBufferSize a bufferSizeBytes;
                ringBufferFormatIsInterleaved =
                  (kAudioFormatFlagIsNonInterleaved AND mFormatFlags (mRingBufferFormat p4) = 0);
                ringBufferFormatNumberInterleavedChannels =
                  (if ringBufferFormatIsInterleaved
                   then mChannelsPerFrame (mRingBufferFormat p4) else 1);
                divisor =
                  mBytesPerFrame (mRingBufferFormat p4) * ringBufferFormatNumberInterleavedChannels
            in
            if divisor = 0 then None
            else
              Some (True,
                    p4\<lparr>mConversionBuffer :=
                         Some (allocateBufferList (mChannelsPerFrame (mRingBufferFormat p4))
                                 (mBytesPerFrame (mRingBufferFormat p4))
                                 ringBufferFormatIsInterleaved
                                 (inputSizeBytes div divisor))\<rparr>))"

text \<open>
  \<open>lockResult1\<close> and \<open>lockResult2\<close> are what the two calls of
  \<^verbatim>\<open>pthread_mutex_lock\<close> return; a failing unlock is only logged. What
  \<^verbatim>\<open>CreateConverterAndConversionBuffer\<close> returns is not looked at. \<open>None\<close>
  is the division by zero in it.
\<close>

definition push_back :: "int \<Rightarrow> AudioDecoder \<Rightarrow> AudioPlayer \<Rightarrow> bool \<times> AudioPlayer" where
  "push_back lockResult decoder p =
     (if 0 \<noteq> lockResult then (False, p)
      else (True, perform SignalDecoderSemaphore
                    (p\<lparr>mDecoderQueue := mDecoderQueue p @ [decoder]\<rparr>)))"

definition Enqueue ::
  "converter_answers \<Rightarrow> int \<Rightarrow> int \<Rightarrow> AudioDecoder \<Rightarrow> AudioPlayer
    \<Rightarrow> (bool \<times> AudioPlayer) option" where
  "Enqueue a lockResult1 lockResult2 decoder p =
     (if 0 \<noteq> lockResult1 then Some (False, p)
      else
        let queueEmpty = (mDecoderQueue p = []) in
        if GetCurrentDecoderState p = None \<and> queueEmpty then
          (case CreateConverterAndConversionBuffer a (p\<lparr>mRingBufferFormat := GetFormat decoder\<rparr>) of
             None \<Rightarrow> None
           | Some (created, p2) \<Rightarrow>
               let p3 = perform (RingBufferAllocate (mChannelsPerFrame (mRingBufferFormat p2))
                                   (mBytesPerFrame (mRingBufferFormat p2))
                                   RING_BUFFER_SIZE_FRAMES) p2
               in Some (push_back lockResult2 decoder p3))
        else
          let nextFormat = GetFormat decoder;
              formatsMatch = (nextFormat = mRingBufferFormat p)
          in if False = formatsMatch then Some (False, p)
             else Some (push_back lockResult2 decoder p))"

subsection \<open>The decoding loop of \<^verbatim>\<open>DecoderThreadEntry\<close>\<close>

text \<open>
  What the decoder answers during one pass of the inner \<^verbatim>\<open>for(;;)\<close>, named after the
  locals that receive the answers: \<^verbatim>\<open>GetCurrentFrame()\<close> before the seek,
  \<^verbatim>\<open>SeekToFrame(mFrameToSeek)\<close>, \<^verbatim>\<open>GetCurrentFrame()\<close> before the read, and
  \<^verbatim>\<open>ReadAudio(mBufferList, RING_BUFFER_WRITE_CHUNK_SIZE_FRAMES)\<close>, a \<^verbatim>\<open>UInt32\<close>.
\<close>

record decoder_answers =
  currentFrameBeforeSeeking :: SInt64
  newFrame :: SInt64
  startingFrameNumber :: SInt64
  framesDecoded :: int

text \<open>
  A write through the worker's pointer \<^verbatim>\<open>decoderStateData\<close>, which slot \<open>i\<close> holds.
  With the slot empty there is nothing the model can write to.
\<close>

definition modify_state ::
  "nat \<Rightarrow> (DecoderStateData \<Rightarrow> DecoderStateData) \<Rightarrow> AudioPlayer \<Rightarrow> AudioPlayer" where
  "modify_state i f p =
     (case mActiveDecoders p i of None \<Rightarrow> p | Some s \<Rightarrow> set_state i (f s) p)"

text \<open>
  The seek request, in three parts. First the flag is set, the decoder is asked, and
  the request slot is swapped back to \<open>-1\<close>.
\<close>

definition seek_clear_request :: "nat \<Rightarrow> AudioPlayer \<Rightarrow> AudioPlayer" where
  "seek_clear_request i p =
     modify_state i
       (\<lambda>s. s\<lparr>mFrameToSeek :=
                 snd (OSAtomicCompareAndSwap64Barrier (mFrameToSeek s) (- 1) (mFrameToSeek s))\<rparr>)
       (p\<lparr>mFlags := insert eAudioPlayerFlagIsSeeking (mFlags p)\<rparr>)"

text \<open>Then the counters, behind the test \<^verbatim>\<open>-1 != newFrame\<close>.\<close>

definition seek_update_counters :: "decoder_answers \<Rightarrow> nat \<Rightarrow> AudioPlayer \<Rightarrow> AudioPlayer" where
  "seek_update_counters a i p =
     (if - 1 \<noteq> newFrame a then
        let framesSkipped = newFrame a - currentFrameBeforeSeeking a;
            p1 = modify_state i
                   (\<lambda>s. s\<lparr>mFramesRenderedD :=
                             snd (OSAtomicCompareAndSwap64Barrier (mFramesRenderedD s)
                                    (newFrame a) (mFramesRenderedD s))\<rparr>) p;
            p2 = p1\<lparr>mFramesDecoded := mFramesDecoded p1 + framesSkipped\<rparr>;
            p3 = p2\<lparr>mFramesRendered :=
                      snd (OSAtomicCompareAndSwap64Barrier (mFramesRendered p2)
                             (mFramesDecoded p2) (mFramesRendered p2))\<rparr>;
            p4 = perform AudioConverterReset p3
        in snd (ResetOutput p4)
      else p)"

text \<open>The whole request: the two parts, and the flag cleared.\<close>

definition service_seek :: "decoder_answers \<Rightarrow> nat \<Rightarrow> AudioPlayer \<Rightarrow> AudioPlayer" where
  "service_seek a i p =
     (let p' = seek_update_counters a i (seek_clear_request i p)
      in p'\<lparr>mFlags := mFlags p' - {eAudioPlayerFlagIsSeeking}\<rparr>)"

text \<open>
  One pass of the \<^verbatim>\<open>for(;;)\<close> for the state in slot \<open>i\<close>: whether the loop goes
  round again (\<open>False\<close> for either \<^verbatim>\<open>break\<close>), and the player afterwards. A pass
  for an empty slot is outside the model and stops.
\<close>

definition decode_pass :: "decoder_answers \<Rightarrow> nat \<Rightarrow> AudioPlayer \<Rightarrow> bool \<times> AudioPlayer" where
  "decode_pass a i p =
     (case mActiveDecoders p i of
        None \<Rightarrow> (False, p)
      | Some decoderStateData \<Rightarrow>
          let framesAvailableToWrite =
                UInt32 (RING_BUFFER_SIZE_FRAMES - (mFramesDecoded p - mFramesRendered p))
          in
          if RING_BUFFER_WRITE_CHUNK_SIZE_FRAMES \<le> framesAvailableToWrite then
            let decoder = decoderAddress (mDecoder decoderStateData);
                startTime = mTimeStamp decoderStateData;
                p1 = (if - 1 \<noteq> mFrameToSeek decoderStateData
                      then service_seek a i p else p);
                p2 = (if 0 = startingFrameNumber a
                      then perform (PerformDecodingStartedCallback decoder) p1 else p1);
                p3 = (if 0 \<noteq> framesDecoded a
                      then (let q = perform (RingBufferStore (framesDecoded a)
                                               (startingFrameNumber a + startTime)) p2
                            in q\<lparr>mFramesDecoded := mFramesDecoded q + framesDecoded a\<rparr>)
                      else p2)
            in
            if 0 = framesDecoded a then
              (False,
               modify_state i
                 (\<lambda>s. s\<lparr>mKeepDecoding := False, mTotalFrames := startingFrameNumber a\<rparr>)
                 (perform (PerformDecodingFinishedCallback decoder) p3))
            else (True, p3)
          else (False, p))"

subsection \<open>The store path and the fetch path, step by step\<close>

text \<open>
  Where the worker stands in the \<^verbatim>\<open>for(;;)\<close> of \<^verbatim>\<open>DecoderThreadEntry\<close>: before the two
  counters are loaded for \<^verbatim>\<open>framesAvailableToWrite\<close>, with one of them loaded (the order
  of the two loads is the compiler's), with \<^verbatim>\<open>framesAvailableToWrite\<close> computed, about to
  call \<^verbatim>\<open>ReadAudio\<close>, and with the frames \<^verbatim>\<open>ReadAudio\<close> returned.
\<close>

datatype worker_at =
    AtGuard
  | LoadedDecoded SInt64
  | LoadedRendered SInt64
  | Compared int
  | Reading
  | ReadDone int

text \<open>
  Where the render side stands in \<^verbatim>\<open>FillConversionBuffer\<close>: not in it, called with
  \<^verbatim>\<open>*ioNumberDataPackets\<close>, with one counter loaded for \<^verbatim>\<open>framesAvailableToRead\<close>, and
  with \<^verbatim>\<open>framesToRead\<close> computed.
\<close>

datatype fetch_at =
    Outside
  | Called int
  | CalledLoadedDecoded int SInt64
  | CalledLoadedRendered int SInt64
  | Clamped int

record pipeline = AudioPlayer +
  workerAt :: worker_at
  fetchAt :: fetch_at

text \<open>
  One step of one of the two threads. A load, the atomic add and the call of the decoder
  are steps of their own, so that the other thread can run between any two of them.
  \<open>WorkerReads n\<close>: \<^verbatim>\<open>ReadAudio\<close>, asked for one chunk, returns \<open>n\<close> frames.
  \<open>FetchCalled n\<close>: the converter calls \<^verbatim>\<open>FillConversionBuffer\<close> for \<open>n\<close> packets.
  \<open>FetchReturns ok\<close>: the ring buffer's \<^verbatim>\<open>Fetch\<close> succeeded or not, and the function
  returns.
\<close>

datatype move =
    WorkerLoadsDecoded
  | WorkerLoadsRendered
  | WorkerTests
  | WorkerReads int
  | WorkerStores
  | FetchCalled int
  | FetchLoadsDecoded
  | FetchLoadsRendered
  | FetchReturns bool

text \<open>
  The step a thread takes from where it stands; \<open>None\<close> when the thread does not stand
  where the step starts, when \<^verbatim>\<open>ReadAudio\<close> would return more frames than the chunk it
  was asked for, or when the packet count is no \<^verbatim>\<open>UInt32\<close>. The steps are those of
  a worker that finds no seek request in the slot: the branch of the loop that services a
  request (\<open>service_seek\<close> above, taken in \<open>decode_pass\<close>) and \<^verbatim>\<open>Stop\<close> are
  not among them. The ring buffer's contents and the decoder's callbacks are left out;
  none of them reads or writes a counter.
\<close>

fun step :: "move \<Rightarrow> pipeline \<Rightarrow> pipeline option" where
  "step WorkerLoadsDecoded s =
     (case workerAt s of
        AtGuard \<Rightarrow> Some (s\<lparr>workerAt := LoadedDecoded (mFramesDecoded s)\<rparr>)
      | LoadedRendered r \<Rightarrow>
          Some (s\<lparr>workerAt :=
                    Compared (UInt32 (RING_BUFFER_SIZE_FRAMES - (mFramesDecoded s - r)))\<rparr>)
      | _ \<Rightarrow> None)"
| "step WorkerLoadsRendered s =
     (case workerAt s of
        AtGuard \<Rightarrow> Some (s\<lparr>workerAt := LoadedRendered (mFramesRendered s)\<rparr>)
      | LoadedDecoded d \<Rightarrow>
          Some (s\<lparr>workerAt :=
                    Compared (UInt32 (RING_BUFFER_SIZE_FRAMES - (d - mFramesRendered s)))\<rparr>)
      | _ \<Rightarrow> None)"
| "step WorkerTests s =
     (case workerAt s of
        Compared framesAvailableToWrite \<Rightarrow>
          if RING_BUFFER_WRITE_CHUNK_SIZE_FRAMES \<le> framesAvailableToWrite
          then Some (s\<lparr>workerAt := Reading\<rparr>)
          else Some (s\<lparr>workerAt := AtGuard\<rparr>)
      | _ \<Rightarrow> None)"
| "step (WorkerReads n) s =
     (case workerAt s of
        Reading \<Rightarrow>
          if 0 \<le> n \<and> n \<le> RING_BUFFER_WRITE_CHUNK_SIZE_FRAMES
          then Some (s\<lparr>workerAt := ReadDone n\<rparr>) else None
      | _ \<Rightarrow> None)"
| "step WorkerStores s =
     (case workerAt s of
        ReadDone frames \<Rightarrow>
          if 0 \<noteq> frames
          then Some (s\<lparr>mFramesDecoded := mFramesDecoded s + frames, workerAt := AtGuard\<rparr>)
          else Some (s\<lparr>workerAt := AtGuard\<rparr>)
      | _ \<Rightarrow> None)"
| "step (FetchCalled ioNumberDataPackets) s =
     (case fetchAt s of
        Outside \<Rightarrow>
          if 0 \<le> ioNumberDataPackets \<and> ioNumberDataPackets < 2 ^ 32
          then Some (s\<lparr>fetchAt := Called ioNumberDataPackets\<rparr>) else None
      | _ \<Rightarrow> None)"
| "step FetchLoadsDecoded s =
     (case fetchAt s of
        Called n \<Rightarrow> Some (s\<lparr>fetchAt := CalledLoadedDecoded n (mFramesDecoded s)\<rparr>)
      | CalledLoadedRendered n r \<Rightarrow>
          Some (s\<lparr>fetchAt := Clamped (min (UInt32 (mFramesDecoded s - r)) n)\<rparr>)
      | _ \<Rightarrow> None)"
| "step FetchLoadsRendered s =
     (case fetchAt s of
        Called n \<Rightarrow> Some (s\<lparr>fetchAt := CalledLoadedRendered n (mFramesRendered s)\<rparr>)
      | CalledLoadedDecoded n d \<Rightarrow>
          Some (s\<lparr>fetchAt := Clamped (min (UInt32 (d - mFramesRendered s)) n)\<rparr>)
      | _ \<Rightarrow> None)"
| "step (FetchReturns fetched) s =
     (case fetchAt s of
        Clamped framesToRead \<Rightarrow>
          if fetched
          then Some (s\<lparr>mFramesRendered := mFramesRendered s + framesToRead,
                       mFramesRenderedLastPass := mFramesRenderedLastPass s + framesToRead,
                       fetchAt := Outside\<rparr>)
          else Some (s\<lparr>fetchAt := Outside\<rparr>)
      | _ \<Rightarrow> None)"

text \<open>A schedule is a list of steps; it runs as long as each step can be taken.\<close>

fun run :: "move list \<Rightarrow> pipeline \<Rightarrow> pipeline option" where
  "run [] s = Some s"
| "run (m # ms) s = (case step m s of None \<Rightarrow> None | Some s' \<Rightarrow> run ms s')"

text \<open>
  Both threads at the start of their paths, and counters within the bounds: the player
  as the constructor and \<^verbatim>\<open>Stop\<close> leave it (both counters 0) is such a start.
\<close>

definition at_rest :: "pipeline \<Rightarrow> bool" where
  "at_rest s \<longleftrightarrow>
     0 \<le> mFramesRendered s \<and> mFramesRendered s \<le> mFramesDecoded s \<and>
     mFramesDecoded s - mFramesRendered s \<le> RING_BUFFER_SIZE_FRAMES \<and>
     workerAt s = AtGuard \<and> fetchAt s = Outside"

text \<open>
  What a thread has in its locals, against the counters \<open>D\<close> (\<^verbatim>\<open>mFramesDecoded\<close>)
  and \<open>R\<close> (\<^verbatim>\<open>mFramesRendered\<close>) as they are now.
\<close>

fun worker_knows :: "worker_at \<Rightarrow> SInt64 \<Rightarrow> SInt64 \<Rightarrow> bool" where
  "worker_knows AtGuard D R = True"
| "worker_knows (LoadedDecoded d) D R = (d = D)"
| "worker_knows (LoadedRendered r) D R = (r \<le> R \<and> D - r \<le> RING_BUFFER_SIZE_FRAMES)"
| "worker_knows (Compared a) D R = (a \<le> RING_BUFFER_SIZE_FRAMES - (D - R))"
| "worker_knows Reading D R =
     (RING_BUFFER_WRITE_CHUNK_SIZE_FRAMES \<le> RING_BUFFER_SIZE_FRAMES - (D - R))"
| "worker_knows (ReadDone n) D R =
     (0 \<le> n \<and> n \<le> RING_BUFFER_WRITE_CHUNK_SIZE_FRAMES \<and>
      RING_BUFFER_WRITE_CHUNK_SIZE_FRAMES \<le> RING_BUFFER_SIZE_FRAMES - (D - R))"

fun fetch_knows :: "fetch_at \<Rightarrow> SInt64 \<Rightarrow> SInt64 \<Rightarrow> bool" where
  "fetch_knows Outside D R = True"
| "fetch_knows (Called n) D R = (0 \<le> n)"
| "fetch_knows (CalledLoadedDecoded n d) D R = (0 \<le> n \<and> R \<le> d \<and> d \<le> D)"
| "fetch_knows (CalledLoadedRendered n r) D R = (0 \<le> n \<and> r = R)"
| "fetch_knows (Clamped k) D R = (0 \<le> k \<and> k \<le> D - R)"

definition counters_ok :: "pipeline \<Rightarrow> bool" where
  "counters_ok s \<longleftrightarrow>
     0 \<le> mFramesRendered s \<and> mFramesRendered s \<le> mFramesDecoded s \<and>
     mFramesDecoded s - mFramesRendered s \<le> RING_BUFFER_SIZE_FRAMES \<and>
     worker_knows (workerAt s) (mFramesDecoded s) (mFramesRendered s) \<and>
     fetch_knows (fetchAt s) (mFramesDecoded s) (mFramesRendered s)"

subsection \<open>Two predicates on decoder states\<close>

text \<open>
  The states \<^verbatim>\<open>GetCurrentDecoderState\<close> does not skip: not ready for collection, and
  total frames different from the frames rendered.
\<close>

definition playable :: "DecoderStateData \<Rightarrow> bool" where
  "playable s \<longleftrightarrow> \<not> mReadyForCollection s \<and> mTotalFrames s \<noteq> mFramesRenderedD s"

text \<open>
  \<open>within_total p q\<close>: the slots of \<open>q\<close> hold the states of \<open>p\<close> with their
  totals and time stamps, and a state whose frames rendered differ from before has them
  at or below its total.
\<close>

definition within_total :: "AudioPlayer \<Rightarrow> AudioPlayer \<Rightarrow> bool" where
  "within_total p q \<longleftrightarrow>
     (\<forall>k. case mActiveDecoders q k of
             None \<Rightarrow> mActiveDecoders p k = None
           | Some t' \<Rightarrow>
               (\<exists>t. mActiveDecoders p k = Some t \<and> mTotalFrames t' = mTotalFrames t \<and>
                    mTimeStamp t' = mTimeStamp t \<and>
                    (mFramesRenderedD t' = mFramesRenderedD t
                     \<or> mFramesRenderedD t' \<le> mTotalFrames t)))"

subsection \<open>Concrete players\<close>

text \<open>
  Stereo 32-bit linear PCM at 44100 Hz (the sample rate as the bits of the double), and
  the same at 48000 Hz.
\<close>

definition pcm_44100 :: AudioStreamBasicDescription where
  "pcm_44100 =
     \<lparr>mSampleRate = 0x40E5888000000000, mFormatID = 0x6C70636D, mFormatFlags = 0x29,
      mBytesPerPacket = 8, mFramesPerPacket = 1, mBytesPerFrame = 8, mChannelsPerFrame = 2,
      mBitsPerChannel = 32, mReserved = 0\<rparr>"

definition pcm_48000 :: AudioStreamBasicDescription where
  "pcm_48000 = pcm_44100\<lparr>mSampleRate := 0x40E7700000000000\<rparr>"

definition decoder_at :: "nat \<Rightarrow> AudioStreamBasicDescription \<Rightarrow> bool \<Rightarrow> AudioDecoder" where
  "decoder_at address format seeking =
     \<lparr>decoderAddress = address, GetFormat = format, SupportsSeeking = seeking\<rparr>"

text \<open>
  A decoder state as the worker makes it for a seekable decoder at \<open>address\<close>, with
  its time stamp, total and rendered frames: no seek requested, decoding, not ready for
  collection.
\<close>

definition state_of :: "nat \<Rightarrow> SInt64 \<Rightarrow> SInt64 \<Rightarrow> SInt64 \<Rightarrow> DecoderStateData" where
  "state_of address timeStamp totalFrames framesRendered =
     \<lparr>mDecoder = decoder_at address pcm_44100 True, mTimeStamp = timeStamp,
      mTotalFrames = totalFrames, mFramesRenderedD = framesRendered, mFrameToSeek = - 1,
      mKeepDecoding = True, mReadyForCollection = False\<rparr>"

text \<open>
  The player as the constructor leaves it, with a ring buffer format and with the
  virtual format of the stream it is bound to.
\<close>

definition new_player :: AudioPlayer where
  "new_player =
     \<lparr>mIsPlaying = False, mFlags = {}, mDecoderQueue = [], mActiveDecoders = (\<lambda>i. None),
      mRingBufferFormat = pcm_44100, mStreamVirtualFormat = pcm_48000, mConverter = None,
      mConversionBuffer = None, mFramesDecoded = 0, mFramesRendered = 0,
      mFramesRenderedLastPass = 0, effects = []\<rparr>"

text \<open>
  The answers of a platform that makes converter 7, has a device buffer of 512 frames
  and wants as many input bytes as output bytes; and of one whose
  \<^verbatim>\<open>AudioConverterNew\<close> fails with \<^verbatim>\<open>kAudioConverterErr_FormatNotSupported\<close>.
\<close>

definition converter_made :: converter_answers where
  "converter_made =
     \<lparr>converterNewResult = 0, newConverter = 7, bufferFrameSizeResult = 0,
      bufferSizeFrames = 512, inputBufferSizeResult = 0,
      calculateInputBufferSize = (\<lambda>outputBytes. outputBytes)\<rparr>"

definition converter_refused :: converter_answers where
  "converter_refused = converter_made\<lparr>converterNewResult := 1718449215\<rparr>"

text \<open>
  Two decoders joined without a gap, when the housekeeping of a render pass starts: the
  first, with 1000 frames, had 700 of them rendered before the pass, the second starts
  at frame 1000 and says it has 5000 frames; 5000 frames are decoded, and the pass
  rendered \<open>n\<close> frames after the first 700.
\<close>

definition two_decoders :: "SInt64 \<Rightarrow> AudioPlayer" where
  "two_decoders n =
     new_player\<lparr>mIsPlaying := True,
                mActiveDecoders := (\<lambda>i. None)(0 := Some (state_of 1 0 1000 700),
                                               1 := Some (state_of 2 1000 5000 0)),
                mFramesDecoded := 5000, mFramesRendered := 700 + n,
                mFramesRenderedLastPass := n\<rparr>"

text \<open>The constructed player with its two threads at the start of their paths.\<close>

definition new_pipeline :: pipeline where
  "new_pipeline = AudioPlayer.extend new_player (pipeline.fields AtGuard Outside)"

text \<open>
  A schedule in which the fetch path is entered while the worker decodes its first
  chunk, and the pipeline it ends in.
\<close>

definition one_chunk_stored :: "move list" where
  "one_chunk_stored =
     [WorkerLoadsDecoded, FetchCalled 512, WorkerLoadsRendered, WorkerTests, WorkerReads 2048,
      FetchLoadsRendered, WorkerStores, FetchLoadsDecoded]"

definition after_one_chunk :: pipeline where
  "after_one_chunk = new_pipeline\<lparr>mFramesDecoded := 2048, fetchAt := Clamped 512\<rparr>"

text \<open>A player whose only decoder state has a seek to frame 700 pending.\<close>

definition seek_pending :: AudioPlayer where
  "seek_pending =
     new_player\<lparr>mActiveDecoders :=
                  (\<lambda>i. None)(0 := Some ((state_of 1 0 10000 1000)\<lparr>mFrameToSeek := 700\<rparr>)),
                mFramesDecoded := 4096, mFramesRendered := 1000\<rparr>"

text \<open>
  A player whose first decoder state has more frames rendered than its total says, with
  a second decoder after it.
\<close>

definition overrun :: AudioPlayer where
  "overrun =
     new_player\<lparr>mActiveDecoders := (\<lambda>i. None)(0 := Some (state_of 1 0 100 150),
                                               1 := Some (state_of 2 100 500 0))\<rparr>"

text \<open>A player with one decoder waiting in the queue and none active.\<close>

definition one_queued :: AudioPlayer where
  "one_queued = new_player\<lparr>mDecoderQueue := [decoder_at 1 pcm_44100 True]\<rparr>"

text \<open>
  The answers of a decoder that stood at frame 4096 when it was asked to seek, returns
  \<open>landing\<close> from \<^verbatim>\<open>SeekToFrame\<close>, stands there afterwards (where it was, if
  \<open>landing\<close> is negative), and then reads a whole chunk.
\<close>

definition seek_answered :: "SInt64 \<Rightarrow> decoder_answers" where
  "seek_answered landing =
     \<lparr>currentFrameBeforeSeeking = 4096, newFrame = landing,
      startingFrameNumber = (if 0 \<le> landing then landing else 4096),
      framesDecoded = 2048\<rparr>"

text \<open>The answers of a decoder that stands at frame 4000 and has no more frames.\<close>

definition end_of_stream :: decoder_answers where
  "end_of_stream =
     \<lparr>currentFrameBeforeSeeking = 4000, newFrame = - 1, startingFrameNumber = 4000,
      framesDecoded = 0\<rparr>"

subsection \<open>The housekeeping after rendering in \<^verbatim>\<open>Render\<close>\<close>

text \<open>
  The body of the \<^verbatim>\<open>while\<close> loop up to the update of
  \<^verbatim>\<open>framesRemainingToDistribute\<close>, for the state \<open>decoderState\<close> that slot \<open>i\<close>
  points to: \<^verbatim>\<open>framesFromThisDecoder\<close> and the player afterwards.
\<close>

definition attribute_frames :: "nat \<Rightarrow> DecoderStateData \<Rightarrow> AudioPlayer \<Rightarrow> SInt64 \<times> AudioPlayer" where
  "attribute_frames i decoderState p =
     (let decoder = decoderAddress (mDecoder decoderState);
          decoderFramesRemaining = mTotalFrames decoderState - mFramesRenderedD decoderState;
          framesFromThisDecoder = min decoderFramesRemaining (mFramesRenderedLastPass p);
          p1 = (if 0 = mFramesRenderedD decoderState
                then perform (PerformRenderingStartedCallback decoder) p else p);
          s1 = decoderState\<lparr>mFramesRenderedD :=
                 mFramesRenderedD decoderState + framesFromThisDecoder\<rparr>;
          p2 = set_state i s1 p1
      in if mFramesRenderedD s1 = mTotalFrames s1
         then (framesFromThisDecoder,
               perform SignalCollectorSemaphore
                 (set_state i (s1\<lparr>mReadyForCollection := True\<rparr>)
                    (perform (PerformRenderingFinishedCallback decoder) p2)))
         else (framesFromThisDecoder, p2))"

text \<open>After the scan, what it returns is a state of a slot, later than the time stamp.\<close>

lemma after_scan_Some:
  "after_scan slots timeStamp n = Some (j, t) \<Longrightarrow>
     j < n \<and> slots j = Some t \<and> timeStamp < mTimeStamp t \<and> \<not> mReadyForCollection t"
proof (induction n arbitrary: j t)
  case 0
  then show ?case by simp
next
  case (Suc n)
  then show ?case
    by (auto simp: after_pass_def less_Suc_eq split: option.splits if_splits)
qed

lemma attribute_frames_other:
  "k \<noteq> i \<Longrightarrow> mActiveDecoders (snd (attribute_frames i s p)) k = mActiveDecoders p k"
  by (simp add: attribute_frames_def Let_def set_state_def perform_def)

lemma attribute_frames_same:
  "\<exists>s'. mActiveDecoders (snd (attribute_frames i s p)) i = Some s' \<and> mTimeStamp s' = mTimeStamp s"
  by (simp add: attribute_frames_def Let_def set_state_def perform_def)

text \<open>
  The \<^verbatim>\<open>while\<close> loop itself: the tally \<^verbatim>\<open>framesRemainingToDistribute\<close> it ends with,
  and the player. The states it visits have growing time stamps, so it ends.
\<close>

function distribute ::
  "SInt64 \<Rightarrow> (nat \<times> DecoderStateData) option \<Rightarrow> AudioPlayer \<Rightarrow> SInt64 \<times> AudioPlayer" where
  "distribute framesRemainingToDistribute None p = (framesRemainingToDistribute, p)"
| "distribute framesRemainingToDistribute (Some (i, decoderState)) p =
     (let timeStamp = mTimeStamp decoderState;
          attributed = attribute_frames i decoderState p;
          remaining = framesRemainingToDistribute - fst attributed
      in if 0 = remaining then (remaining, snd attributed)
         else distribute remaining
                (GetDecoderStateStartingAfterTimeStamp (snd attributed) timeStamp)
                (snd attributed))"
  by pat_completeness auto

definition later_slots :: "(nat \<times> DecoderStateData) option \<Rightarrow> AudioPlayer \<Rightarrow> nat set" where
  "later_slots decoderState p =
     (case decoderState of
        None \<Rightarrow> {}
      | Some (i, s) \<Rightarrow>
          insert kActiveDecoderArraySize
            {k. k < kActiveDecoderArraySize \<and>
                (\<exists>t. mActiveDecoders p k = Some t \<and> mTimeStamp s < mTimeStamp t)})"

lemma later_slots_finite: "finite (later_slots d p)"
  by (auto simp: later_slots_def split: option.splits)

lemma later_slots_decrease:
  assumes "q = snd (attribute_frames i s p)"
  shows "later_slots (GetDecoderStateStartingAfterTimeStamp q (mTimeStamp s)) q
           \<subset> later_slots (Some (i, s)) p"
proof (cases "GetDecoderStateStartingAfterTimeStamp q (mTimeStamp s)")
  case None
  then show ?thesis by (auto simp: later_slots_def)
next
  case (Some jt)
  obtain j t where jt: "jt = (j, t)" by (cases jt)
  from Some jt have found:
    "j < kActiveDecoderArraySize" "mActiveDecoders q j = Some t" "mTimeStamp s < mTimeStamp t"
    using after_scan_Some [of "mActiveDecoders q" "mTimeStamp s" kActiveDecoderArraySize j t]
    by (simp_all add: GetDecoderStateStartingAfterTimeStamp_def)
  have other: "\<And>k. k \<noteq> i \<Longrightarrow> mActiveDecoders q k = mActiveDecoders p k"
    using assms by (simp add: attribute_frames_other)
  obtain s' where same: "mActiveDecoders q i = Some s'" "mTimeStamp s' = mTimeStamp s"
    using assms attribute_frames_same [of i s p] by auto
  from found same have ji: "j \<noteq> i" by auto
  with found other have old: "mActiveDecoders p j = Some t" by simp
  have sub: "later_slots (Some (j, t)) q \<subseteq> later_slots (Some (i, s)) p"
  proof
    fix k
    assume k: "k \<in> later_slots (Some (j, t)) q"
    show "k \<in> later_slots (Some (i, s)) p"
    proof (cases "k = kActiveDecoderArraySize")
      case True
      then show ?thesis by (simp add: later_slots_def)
    next
      case False
      with k obtain u where u: "k < kActiveDecoderArraySize" "mActiveDecoders q k = Some u"
        "mTimeStamp t < mTimeStamp u"
        by (auto simp: later_slots_def)
      with same found have "k \<noteq> i" by auto
      with u other found show ?thesis by (auto simp: later_slots_def)
    qed
  qed
  have "j \<in> later_slots (Some (i, s)) p"
    using found old by (simp add: later_slots_def)
  moreover have "j \<notin> later_slots (Some (j, t)) q"
    using found by (simp add: later_slots_def)
  ultimately show ?thesis using sub Some jt by auto
qed

termination distribute
proof (relation "measure (\<lambda>(r, d, p). card (later_slots d p))")
  show "wf (measure (\<lambda>(r, d, p). card (later_slots d p)))" by simp
next
  fix framesRemainingToDistribute :: SInt64 and i decoderState p x xa xb
  assume "xa = attribute_frames i decoderState p"
  then have "later_slots (GetDecoderStateStartingAfterTimeStamp (snd xa) (mTimeStamp decoderState))
               (snd xa) \<subset> later_slots (Some (i, decoderState)) p"
    by (simp add: later_slots_decrease)
  then show "((xb, GetDecoderStateStartingAfterTimeStamp (snd xa) x, snd xa),
              framesRemainingToDistribute, Some (i, decoderState), p)
             \<in> measure (\<lambda>(r, d, p). card (later_slots d p))"
    if "x = mTimeStamp decoderState"
    using that by (simp add: psubset_card_mono later_slots_finite)
qed

text \<open>The housekeeping: nothing to do when no frame was rendered, else the loop.\<close>

definition post_rendering :: "AudioPlayer \<Rightarrow> SInt64 \<times> AudioPlayer" where
  "post_rendering p =
     (if 0 = mFramesRenderedLastPass p then (0, p)
      else distribute (mFramesRenderedLastPass p) (GetCurrentDecoderState p) p)"

section \<open>Properties\<close>

subsection \<open>\<^verbatim>\<open>GetCurrentFrame\<close>\<close>

text \<open>
  C10. \<^verbatim>\<open>GetCurrentFrame\<close> answers \<open>-1\<close> when there is no current decoder state;
  with a current state whose seek request is pending (\<open>mFrameToSeek \<noteq> -1\<close>) it answers
  the requested frame, and only with no request pending the frames rendered of that state.
\<close>

theorem GetCurrentFrame_cases:
  "(GetCurrentDecoderState p = None \<longrightarrow> GetCurrentFrame p = - 1) \<and>
   (\<forall>i s. GetCurrentDecoderState p = Some (i, s) \<and> mFrameToSeek s \<noteq> - 1
      \<longrightarrow> GetCurrentFrame p = mFrameToSeek s) \<and>
   (\<forall>i s. GetCurrentDecoderState p = Some (i, s) \<and> mFrameToSeek s = - 1
      \<longrightarrow> GetCurrentFrame p = mFramesRenderedD s)"
  by (auto simp: GetCurrentFrame_def)

lemma current_scan_8:
  "current_scan slots 8 =
     current_pass slots 7 (current_pass slots 6 (current_pass slots 5 (current_pass slots 4
       (current_pass slots 3 (current_pass slots 2 (current_pass slots 1
         (current_pass slots 0 None)))))))"
  by (simp add: eval_nat_numeral)

lemma seek_pending_current:
  "GetCurrentDecoderState seek_pending = Some (0, (state_of 1 0 10000 1000)\<lparr>mFrameToSeek := 700\<rparr>)"
  by (simp add: GetCurrentDecoderState_def kActiveDecoderArraySize_def current_scan_8
        current_pass_def seek_pending_def new_player_def state_of_def)

theorem GetCurrentFrame_cases_witness:
  "GetCurrentDecoderState seek_pending = Some (0, (state_of 1 0 10000 1000)\<lparr>mFrameToSeek := 700\<rparr>)
   \<and> mFramesRenderedD ((state_of 1 0 10000 1000)\<lparr>mFrameToSeek := 700\<rparr>) = 1000
   \<and> GetCurrentFrame seek_pending = 700"
proof -
  have pending: "mFrameToSeek ((state_of 1 0 10000 1000)\<lparr>mFrameToSeek := 700\<rparr>) \<noteq> - 1"
    by simp
  from GetCurrentFrame_cases [of seek_pending] seek_pending_current pending
  have "GetCurrentFrame seek_pending = mFrameToSeek ((state_of 1 0 10000 1000)\<lparr>mFrameToSeek := 700\<rparr>)"
    by blast
  then show ?thesis
    using seek_pending_current by (simp add: state_of_def)
qed

subsection \<open>The counters under the store path and the fetch path\<close>

lemma UInt32_small: "0 \<le> x \<Longrightarrow> x \<le> 16384 \<Longrightarrow> UInt32 x = x"
  by (simp add: UInt32_def)

text \<open>
  Every step keeps the bounds and what the two threads know, and lowers no counter.
\<close>

lemma step_keeps:
  assumes "counters_ok s" "step m s = Some s'"
  shows "counters_ok s' \<and> mFramesDecoded s \<le> mFramesDecoded s' \<and>
         mFramesRendered s \<le> mFramesRendered s'"
  using assms
  by (cases m; cases "workerAt s"; cases "fetchAt s")
     (auto simp: counters_ok_def RING_BUFFER_SIZE_FRAMES_def
        RING_BUFFER_WRITE_CHUNK_SIZE_FRAMES_def UInt32_small split: if_splits)

lemma run_keeps:
  "counters_ok s \<Longrightarrow> run ms s = Some s' \<Longrightarrow>
     counters_ok s' \<and> mFramesDecoded s \<le> mFramesDecoded s' \<and>
     mFramesRendered s \<le> mFramesRendered s'"
proof (induction ms arbitrary: s)
  case Nil
  then show ?case by simp
next
  case (Cons m ms)
  from Cons.prems(2) obtain s1 where m: "step m s = Some s1" and ms: "run ms s1 = Some s'"
    by (auto split: option.splits)
  from step_keeps [OF Cons.prems(1) m] Cons.IH [OF _ ms] show ?case by force
qed

lemma at_rest_ok: "at_rest s \<Longrightarrow> counters_ok s"
  by (simp add: at_rest_def counters_ok_def)

text \<open>
  C1, as the code has it. Start with both threads at the beginning of their paths and
  the counters within the bounds, and let the worker's store path, with no seek request
  to service, and the render side's fetch path take their steps in any order. Then at
  every moment \<open>0 \<le> mFramesRendered \<le> mFramesDecoded\<close> and
  \<open>mFramesDecoded - mFramesRendered \<le> 16384\<close>; from that moment on neither counter
  is ever smaller; when the worker holds frames to store, the ring buffer has room for a
  whole chunk of 2048 frames; and the number of frames the fetch path is about to read is
  at most \<open>mFramesDecoded - mFramesRendered\<close>.
\<close>

theorem store_fetch_counters:
  assumes "at_rest s0" and "run ms s0 = Some s"
  shows "0 \<le> mFramesRendered s \<and> mFramesRendered s \<le> mFramesDecoded s \<and>
         mFramesDecoded s - mFramesRendered s \<le> RING_BUFFER_SIZE_FRAMES \<and>
         (\<forall>ms' s'. run ms' s = Some s' \<longrightarrow>
            mFramesDecoded s \<le> mFramesDecoded s' \<and> mFramesRendered s \<le> mFramesRendered s') \<and>
         (\<forall>n. workerAt s = ReadDone n \<longrightarrow>
            RING_BUFFER_WRITE_CHUNK_SIZE_FRAMES
              \<le> RING_BUFFER_SIZE_FRAMES - (mFramesDecoded s - mFramesRendered s)) \<and>
         (\<forall>k. fetchAt s = Clamped k \<longrightarrow> k \<le> mFramesDecoded s - mFramesRendered s)"
proof -
  from assms have ok: "counters_ok s"
    using run_keeps at_rest_ok by blast
  then have bounds: "0 \<le> mFramesRendered s \<and> mFramesRendered s \<le> mFramesDecoded s \<and>
         mFramesDecoded s - mFramesRendered s \<le> RING_BUFFER_SIZE_FRAMES"
    by (simp add: counters_ok_def)
  from ok have later: "\<forall>ms' s'. run ms' s = Some s' \<longrightarrow>
            mFramesDecoded s \<le> mFramesDecoded s' \<and> mFramesRendered s \<le> mFramesRendered s'"
    using run_keeps by blast
  from ok have w: "\<forall>n. workerAt s = ReadDone n \<longrightarrow>
            RING_BUFFER_WRITE_CHUNK_SIZE_FRAMES
              \<le> RING_BUFFER_SIZE_FRAMES - (mFramesDecoded s - mFramesRendered s)"
    by (auto simp: counters_ok_def)
  from ok have f: "\<forall>k. fetchAt s = Clamped k \<longrightarrow> k \<le> mFramesDecoded s - mFramesRendered s"
    by (auto simp: counters_ok_def)
  from bounds later w f show ?thesis by blast
qed

lemma new_pipeline_at_rest: "at_rest new_pipeline"
  by (simp add: at_rest_def new_pipeline_def new_player_def AudioPlayer.defs pipeline.defs
        RING_BUFFER_SIZE_FRAMES_def)

lemma run_one_chunk_stored: "run one_chunk_stored new_pipeline = Some after_one_chunk"
  by (simp add: one_chunk_stored_def after_one_chunk_def new_pipeline_def new_player_def
        AudioPlayer.defs pipeline.defs RING_BUFFER_SIZE_FRAMES_def
        RING_BUFFER_WRITE_CHUNK_SIZE_FRAMES_def UInt32_def)

theorem store_fetch_counters_witness:
  "at_rest new_pipeline \<and> run one_chunk_stored new_pipeline = Some after_one_chunk \<and>
   fetchAt after_one_chunk = Clamped 512 \<and>
   mFramesRendered after_one_chunk \<le> mFramesDecoded after_one_chunk \<and>
   mFramesDecoded after_one_chunk - mFramesRendered after_one_chunk \<le> RING_BUFFER_SIZE_FRAMES \<and>
   512 \<le> mFramesDecoded after_one_chunk - mFramesRendered after_one_chunk"
proof -
  have clamped: "fetchAt after_one_chunk = Clamped 512"
    by (simp add: after_one_chunk_def)
  from store_fetch_counters [OF new_pipeline_at_rest run_one_chunk_stored] clamped
  show ?thesis
    using new_pipeline_at_rest run_one_chunk_stored by blast
qed

text \<open>
  A pass of the worker's loop that finds a request for frame 700 while the decoder stands
  at frame 4096: the pass services the request and stores a chunk, and both counters are
  smaller than before.
\<close>

theorem decode_pass_seek_backwards:
  "mFramesDecoded seek_pending = 4096 \<and> mFramesRendered seek_pending = 1000 \<and>
   fst (decode_pass (seek_answered 700) 0 seek_pending) = True \<and>
   mFramesDecoded (snd (decode_pass (seek_answered 700) 0 seek_pending)) = 2748 \<and>
   mFramesRendered (snd (decode_pass (seek_answered 700) 0 seek_pending)) = 700"
  by (simp add: decode_pass_def service_seek_def seek_clear_request_def
        seek_update_counters_def modify_state_def set_state_def
        OSAtomicCompareAndSwap64Barrier_def ResetOutput_def perform_def Let_def UInt32_def
        RING_BUFFER_SIZE_FRAMES_def RING_BUFFER_WRITE_CHUNK_SIZE_FRAMES_def
        seek_answered_def seek_pending_def new_player_def state_of_def)

subsection \<open>The current decoder state\<close>

lemma current_pass_None:
  "current_pass slots n r = None \<longleftrightarrow>
     r = None \<and> (\<forall>s. slots n = Some s \<longrightarrow> \<not> playable s)"
  by (auto simp: current_pass_def playable_def split: option.splits)

lemma current_scan_None:
  "current_scan slots n = None \<longleftrightarrow> (\<forall>k<n. \<forall>s. slots k = Some s \<longrightarrow> \<not> playable s)"
  by (induction n) (auto simp: current_pass_None less_Suc_eq)

lemma current_scan_Some:
  "current_scan slots n = Some (i, s) \<Longrightarrow>
     i < n \<and> slots i = Some s \<and> playable s \<and>
     (\<forall>k<n. \<forall>t. slots k = Some t \<and> playable t \<longrightarrow> mTimeStamp s \<le> mTimeStamp t)"
proof (induction n arbitrary: i s)
  case 0
  then show ?case by simp
next
  case (Suc n)
  show ?case
  proof (cases "current_scan slots n")
    case None
    with Suc.prems have here: "i = n" "slots n = Some s" "playable s"
      by (auto simp: current_pass_def playable_def split: option.splits if_splits)
    from None have "\<forall>k<n. \<forall>t. slots k = Some t \<longrightarrow> \<not> playable t"
      by (simp add: current_scan_None)
    with here show ?thesis by (auto simp: less_Suc_eq)
  next
    case (Some jr)
    obtain j r where jr: "jr = (j, r)" by (cases jr)
    from Suc.IH [of j r] Some jr
    have IH: "j < n" "slots j = Some r" "playable r"
      "\<forall>k<n. \<forall>t. slots k = Some t \<and> playable t \<longrightarrow> mTimeStamp r \<le> mTimeStamp t"
      by simp_all
    from Suc.prems Some jr
    consider (keep) "i = j" "s = r"
        "\<forall>t. slots n = Some t \<and> playable t \<longrightarrow> mTimeStamp r \<le> mTimeStamp t"
      | (take) "i = n" "slots n = Some s" "playable s" "mTimeStamp s < mTimeStamp r"
      by (auto simp: current_pass_def playable_def split: option.splits if_splits)
    then show ?thesis
    proof cases
      case keep
      with IH show ?thesis by (auto simp: less_Suc_eq)
    next
      case take
      with IH show ?thesis by (fastforce simp: less_Suc_eq)
    qed
  qed
qed

text \<open>
  C4, as the code has it. \<^verbatim>\<open>GetCurrentDecoderState\<close> returns none exactly when every
  slot below \<^verbatim>\<open>kActiveDecoderArraySize\<close> is empty, ready for collection, or has
  \<open>mTotalFrames = mFramesRendered\<close>. What it returns otherwise is the state of a slot
  that is not ready for collection and has \<open>mTotalFrames \<noteq> mFramesRendered\<close>, and no
  such state in any slot has a smaller time stamp. The test for "fully rendered" is the
  equality, not \<open>mFramesRendered \<ge> mTotalFrames\<close>.
\<close>

theorem GetCurrentDecoderState_smallest:
  "(GetCurrentDecoderState p = None \<longleftrightarrow>
      (\<forall>k<kActiveDecoderArraySize. \<forall>t. mActiveDecoders p k = Some t \<longrightarrow>
         mReadyForCollection t \<or> mTotalFrames t = mFramesRenderedD t)) \<and>
   (\<forall>i s. GetCurrentDecoderState p = Some (i, s) \<longrightarrow>
      i < kActiveDecoderArraySize \<and> mActiveDecoders p i = Some s \<and>
      \<not> mReadyForCollection s \<and> mTotalFrames s \<noteq> mFramesRenderedD s \<and>
      (\<forall>k<kActiveDecoderArraySize. \<forall>t.
         mActiveDecoders p k = Some t \<and> \<not> mReadyForCollection t \<and>
         mTotalFrames t \<noteq> mFramesRenderedD t \<longrightarrow> mTimeStamp s \<le> mTimeStamp t))"
proof -
  have none: "GetCurrentDecoderState p = None \<longleftrightarrow>
      (\<forall>k<kActiveDecoderArraySize. \<forall>t. mActiveDecoders p k = Some t \<longrightarrow>
         mReadyForCollection t \<or> mTotalFrames t = mFramesRenderedD t)"
    by (simp add: GetCurrentDecoderState_def current_scan_None playable_def)
  have some: "\<forall>i s. GetCurrentDecoderState p = Some (i, s) \<longrightarrow>
      i < kActiveDecoderArraySize \<and> mActiveDecoders p i = Some s \<and>
      \<not> mReadyForCollection s \<and> mTotalFrames s \<noteq> mFramesRenderedD s \<and>
      (\<forall>k<kActiveDecoderArraySize. \<forall>t.
         mActiveDecoders p k = Some t \<and> \<not> mReadyForCollection t \<and>
         mTotalFrames t \<noteq> mFramesRenderedD t \<longrightarrow> mTimeStamp s \<le> mTimeStamp t)"
    using current_scan_Some [of "mActiveDecoders p" kActiveDecoderArraySize]
    unfolding GetCurrentDecoderState_def playable_def by blast
  from none some show ?thesis by blast
qed

text \<open>
  With 150 frames rendered of a total of 100 the first state is still the current one,
  though a state that is not ready and has frames left stands in the next slot.
\<close>

theorem GetCurrentDecoderState_overrun:
  "GetCurrentDecoderState overrun = Some (0, state_of 1 0 100 150) \<and>
   mTotalFrames (state_of 1 0 100 150) \<le> mFramesRenderedD (state_of 1 0 100 150) \<and>
   mActiveDecoders overrun 1 = Some (state_of 2 100 500 0) \<and>
   mReadyForCollection (state_of 2 100 500 0) = False \<and>
   mFramesRenderedD (state_of 2 100 500 0) < mTotalFrames (state_of 2 100 500 0)"
  by (simp add: GetCurrentDecoderState_def kActiveDecoderArraySize_def current_scan_8
        current_pass_def overrun_def new_player_def state_of_def)

theorem GetCurrentDecoderState_smallest_witness:
  "GetCurrentDecoderState (two_decoders 1000) = Some (0, state_of 1 0 1000 700) \<and>
   mActiveDecoders (two_decoders 1000) 1 = Some (state_of 2 1000 5000 0) \<and>
   mTimeStamp (state_of 1 0 1000 700) \<le> mTimeStamp (state_of 2 1000 5000 0)"
proof -
  have cur: "GetCurrentDecoderState (two_decoders 1000) = Some (0, state_of 1 0 1000 700)"
    by (simp add: GetCurrentDecoderState_def kActiveDecoderArraySize_def current_scan_8
          current_pass_def two_decoders_def new_player_def state_of_def)
  have other: "(1::nat) < kActiveDecoderArraySize \<and>
      mActiveDecoders (two_decoders 1000) 1 = Some (state_of 2 1000 5000 0) \<and>
      \<not> mReadyForCollection (state_of 2 1000 5000 0) \<and>
      mTotalFrames (state_of 2 1000 5000 0) \<noteq> mFramesRenderedD (state_of 2 1000 5000 0)"
    by (simp add: kActiveDecoderArraySize_def two_decoders_def new_player_def state_of_def)
  from GetCurrentDecoderState_smallest [of "two_decoders 1000"] cur other
  have "mTimeStamp (state_of 1 0 1000 700) \<le> mTimeStamp (state_of 2 1000 5000 0)"
    by blast
  with cur other show ?thesis by blast
qed

subsection \<open>\<^verbatim>\<open>Pause\<close> and \<^verbatim>\<open>Play\<close>\<close>

text \<open>
  C9. \<^verbatim>\<open>Pause()\<close> followed by \<^verbatim>\<open>Play()\<close>, whatever the device answers, leaves
  \<open>mFramesRendered\<close>, \<open>mFramesDecoded\<close>, the active decoder states and the queue as
  they were: the player differs in \<open>mIsPlaying\<close> and in the calls made at most, and
  the calls made are \<^verbatim>\<open>AudioDeviceStop\<close> and \<^verbatim>\<open>AudioDeviceStart\<close> only.
\<close>

theorem Pause_Play_frame:
  "mFramesRendered (Play started (Pause stopped p)) = mFramesRendered p \<and>
   mFramesDecoded (Play started (Pause stopped p)) = mFramesDecoded p \<and>
   mActiveDecoders (Play started (Pause stopped p)) = mActiveDecoders p \<and>
   mDecoderQueue (Play started (Pause stopped p)) = mDecoderQueue p \<and>
   Play started (Pause stopped p) =
     p\<lparr>mIsPlaying := mIsPlaying (Play started (Pause stopped p)),
       effects := effects (Play started (Pause stopped p))\<rparr> \<and>
   (\<exists>calls. effects (Play started (Pause stopped p)) = effects p @ calls \<and>
      set calls \<subseteq> {AudioDeviceStop, AudioDeviceStart})"
  by (auto simp: Play_def Pause_def IsPlaying_def StartOutput_def StopOutput_def perform_def)


theorem Pause_Play_frame_witness:
  "mFramesRendered (two_decoders 1000) = 1700 \<and>
   mFramesRendered (Play True (Pause True (two_decoders 1000))) = 1700 \<and>
   mDecoderQueue (Play True (Pause True (two_decoders 1000))) = []"
proof -
  have before: "mFramesRendered (two_decoders 1000) = 1700 \<and> mDecoderQueue (two_decoders 1000) = []"
    by (simp add: two_decoders_def new_player_def)
  from Pause_Play_frame [of True True "two_decoders 1000"] before show ?thesis
    by simp
qed

subsection \<open>\<^verbatim>\<open>Stop\<close>\<close>

lemma stop_scan_slots:
  "stop_scan slots n k =
     (if k < n
      then map_option (\<lambda>s. s\<lparr>mKeepDecoding := False, mReadyForCollection := True\<rparr>) (slots k)
      else slots k)"
  by (induction n arbitrary: k) (auto simp: Let_def less_Suc_eq split: option.splits)


text \<open>
  C8. \<^verbatim>\<open>Stop()\<close> makes its calls in this order: \<^verbatim>\<open>AudioDeviceStop\<close> if the player was
  playing (the \<^verbatim>\<open>Pause\<close>), then the signal to the decoder semaphore and the signal to the
  collector semaphore, then \<^verbatim>\<open>ResetOutput\<close>. The player keeps playing only if it was
  playing and the device could not be stopped. In every slot that is not empty the state
  has \<open>mKeepDecoding = False\<close> and \<open>mReadyForCollection = True\<close> and is otherwise
  as before. After \<^verbatim>\<open>Pause\<close> and \<^verbatim>\<open>StopActiveDecoders\<close> the two counters still have their
  values; at the end both are 0.
\<close>

theorem Stop_effect:
  "effects (Stop stopped p) =
     effects p @ (if mIsPlaying p then [AudioDeviceStop] else [])
       @ [SignalDecoderSemaphore, SignalCollectorSemaphore, ResetOutputCall] \<and>
   mIsPlaying (Stop stopped p) = (mIsPlaying p \<and> \<not> stopped) \<and>
   (\<forall>k<kActiveDecoderArraySize.
      mActiveDecoders (Stop stopped p) k =
        map_option (\<lambda>s. s\<lparr>mKeepDecoding := False, mReadyForCollection := True\<rparr>)
          (mActiveDecoders p k)) \<and>
   mFramesDecoded (StopActiveDecoders (Pause stopped p)) = mFramesDecoded p \<and>
   mFramesRendered (StopActiveDecoders (Pause stopped p)) = mFramesRendered p \<and>
   mFramesDecoded (Stop stopped p) = 0 \<and> mFramesRendered (Stop stopped p) = 0"
  by (auto simp: Stop_def StopActiveDecoders_def Pause_def IsPlaying_def StopOutput_def
        ResetOutput_def perform_def stop_scan_slots Let_def)


theorem Stop_effect_witness:
  "effects (Stop True (two_decoders 1000)) =
     [AudioDeviceStop, SignalDecoderSemaphore, SignalCollectorSemaphore, ResetOutputCall] \<and>
   mIsPlaying (Stop True (two_decoders 1000)) = False \<and>
   mActiveDecoders (Stop True (two_decoders 1000)) 1 =
     Some ((state_of 2 1000 5000 0)\<lparr>mKeepDecoding := False, mReadyForCollection := True\<rparr>) \<and>
   mFramesDecoded (Stop True (two_decoders 1000)) = 0 \<and>
   mFramesRendered (Stop True (two_decoders 1000)) = 0"
proof -
  have before: "mIsPlaying (two_decoders 1000) \<and> effects (two_decoders 1000) = [] \<and>
      mActiveDecoders (two_decoders 1000) 1 = Some (state_of 2 1000 5000 0) \<and>
      (1::nat) < kActiveDecoderArraySize"
    by (simp add: two_decoders_def new_player_def kActiveDecoderArraySize_def)
  from Stop_effect [of True "two_decoders 1000"] before show ?thesis
    by simp
qed


subsection \<open>\<^verbatim>\<open>SeekToFrame\<close>\<close>

text \<open>
  C6, as the code has it. For \<open>frame \<ge> 0\<close>, \<^verbatim>\<open>SeekToFrame(frame)\<close> returns false
  exactly when there is no current decoder state, or its decoder does not support
  seeking, or the compare-and-swap fails, which it does exactly when another thread has
  stored a different value in the request slot between the load of its old value and the
  swap. When it returns false, the player's two counters, every decoder state's frames
  rendered and total frames, and the calls made are what they were: no signal. When it
  returns true, the request slot of the current state holds \<open>frame\<close> and the one call
  made is the signal to the decoder semaphore. A request that is in the slot when the
  call starts does not make it fail: with no other thread writing the slot during the
  call, it returns true for a current decoder that supports seeking whatever the slot
  holds, and \<open>frame\<close> replaces what the slot held.
\<close>

theorem SeekToFrame_result:
  assumes "0 \<le> frame"
  shows "(fst (SeekToFrame frame written p) = False \<longleftrightarrow>
            GetCurrentDecoderState p = None \<or>
            (\<exists>i s. GetCurrentDecoderState p = Some (i, s) \<and>
               (\<not> SupportsSeeking (mDecoder s) \<or>
                (\<exists>v. written = Some v \<and> v \<noteq> mFrameToSeek s)))) \<and>
         (fst (SeekToFrame frame written p) = False \<longrightarrow>
            mFramesDecoded (snd (SeekToFrame frame written p)) = mFramesDecoded p \<and>
            mFramesRendered (snd (SeekToFrame frame written p)) = mFramesRendered p \<and>
            (\<forall>k. map_option mFramesRenderedD (mActiveDecoders (snd (SeekToFrame frame written p)) k)
                  = map_option mFramesRenderedD (mActiveDecoders p k) \<and>
                 map_option mTotalFrames (mActiveDecoders (snd (SeekToFrame frame written p)) k)
                  = map_option mTotalFrames (mActiveDecoders p k)) \<and>
            effects (snd (SeekToFrame frame written p)) = effects p) \<and>
         (fst (SeekToFrame frame written p) = True \<longrightarrow>
            (\<exists>i s. GetCurrentDecoderState p = Some (i, s) \<and>
               mActiveDecoders (snd (SeekToFrame frame written p)) i
                 = Some (s\<lparr>mFrameToSeek := frame\<rparr>)) \<and>
            effects (snd (SeekToFrame frame written p)) = effects p @ [SignalDecoderSemaphore]) \<and>
         (written = None \<longrightarrow>
            (\<forall>i s. GetCurrentDecoderState p = Some (i, s) \<and> SupportsSeeking (mDecoder s) \<longrightarrow>
               fst (SeekToFrame frame written p) = True \<and>
               mActiveDecoders (snd (SeekToFrame frame written p)) i
                 = Some (s\<lparr>mFrameToSeek := frame\<rparr>)))"
proof (cases "GetCurrentDecoderState p")
  case None
  then show ?thesis by (simp add: SeekToFrame_def)
next
  case (Some cur)
  obtain i s where cur: "cur = (i, s)" by (cases cur)
  have slot: "mActiveDecoders p i = Some s"
    using Some cur current_scan_Some [of "mActiveDecoders p" kActiveDecoderArraySize i s]
    by (simp add: GetCurrentDecoderState_def)
  show ?thesis
  proof (cases "SupportsSeeking (mDecoder s)")
    case False
    with Some cur show ?thesis by (simp add: SeekToFrame_def)
  next
    case True
    with Some cur slot show ?thesis
      by (cases written)
         (auto simp: SeekToFrame_def Let_def OSAtomicCompareAndSwap64Barrier_def
            set_state_def perform_def)
  qed
qed


text \<open>
  A request for frame 700 is in the slot; \<^verbatim>\<open>SeekToFrame(900)\<close> returns true and the
  slot holds 900.
\<close>

theorem SeekToFrame_pending_request:
  "GetCurrentDecoderState seek_pending
     = Some (0, (state_of 1 0 10000 1000)\<lparr>mFrameToSeek := 700\<rparr>) \<and>
   mFrameToSeek ((state_of 1 0 10000 1000)\<lparr>mFrameToSeek := 700\<rparr>) = 700 \<and>
   fst (SeekToFrame 900 None seek_pending) = True \<and>
   mActiveDecoders (snd (SeekToFrame 900 None seek_pending)) 0
     = Some ((state_of 1 0 10000 1000)\<lparr>mFrameToSeek := 900\<rparr>)"
  by (simp add: seek_pending_current SeekToFrame_def Let_def
        OSAtomicCompareAndSwap64Barrier_def set_state_def perform_def state_of_def
        decoder_at_def)

theorem SeekToFrame_result_witness:
  "fst (SeekToFrame 900 None seek_pending) = True \<and>
   mActiveDecoders (snd (SeekToFrame 900 None seek_pending)) 0
     = Some ((state_of 1 0 10000 1000)\<lparr>mFrameToSeek := 900\<rparr>) \<and>
   effects (snd (SeekToFrame 900 None seek_pending)) = [SignalDecoderSemaphore] \<and>
   fst (SeekToFrame 900 (Some (- 1)) seek_pending) = False \<and>
   effects (snd (SeekToFrame 900 (Some (- 1)) seek_pending)) = []"
proof -
  have seeking: "SupportsSeeking (mDecoder ((state_of 1 0 10000 1000)\<lparr>mFrameToSeek := 700\<rparr>))"
    by (simp add: state_of_def decoder_at_def)
  have quiet: "effects seek_pending = []"
    by (simp add: seek_pending_def new_player_def)
  have frame: "(0::int) \<le> 900"
    by simp
  have cleared: "Some (- 1) = Some (- 1 :: int) \<and>
      (- 1 :: int) \<noteq> mFrameToSeek ((state_of 1 0 10000 1000)\<lparr>mFrameToSeek := 700\<rparr>)"
    by simp
  from SeekToFrame_result [OF frame, of None seek_pending] seek_pending_current seeking
  have yes: "fst (SeekToFrame 900 None seek_pending) = True"
    by auto
  with SeekToFrame_result [OF frame, of None seek_pending] seek_pending_current quiet
  have swapped: "mActiveDecoders (snd (SeekToFrame 900 None seek_pending)) 0
     = Some ((state_of 1 0 10000 1000)\<lparr>mFrameToSeek := 900\<rparr>) \<and>
   effects (snd (SeekToFrame 900 None seek_pending)) = [SignalDecoderSemaphore]"
    by auto
  from SeekToFrame_result [OF frame, of "Some (- 1)" seek_pending] seek_pending_current cleared
  have no: "fst (SeekToFrame 900 (Some (- 1)) seek_pending) = False"
    by blast
  with SeekToFrame_result [OF frame, of "Some (- 1)" seek_pending] quiet
  have "effects (snd (SeekToFrame 900 (Some (- 1)) seek_pending)) = []"
    by simp
  with yes swapped no show ?thesis by blast
qed

subsection \<open>\<^verbatim>\<open>Enqueue\<close>\<close>

lemma CreateConverterAndConversionBuffer_made:
  assumes "CreateConverterAndConversionBuffer a p = Some (True, q)"
  shows "mConverter q = Some (newConverter a) \<and>
         mConversionBuffer q =
           Some (allocateBufferList (mChannelsPerFrame (mRingBufferFormat p))
                   (mBytesPerFrame (mRingBufferFormat p))
                   (kAudioFormatFlagIsNonInterleaved AND mFormatFlags (mRingBufferFormat p) = 0)
                   (calculateInputBufferSize a
                      (bufferSizeFrames a * mBytesPerFrame (mStreamVirtualFormat p)
                         * (if kAudioFormatFlagIsNonInterleaved
                                 AND mFormatFlags (mStreamVirtualFormat p) = 0
                            then mChannelsPerFrame (mStreamVirtualFormat p) else 1))
                    div (mBytesPerFrame (mRingBufferFormat p)
                           * (if kAudioFormatFlagIsNonInterleaved
                                   AND mFormatFlags (mRingBufferFormat p) = 0
                              then mChannelsPerFrame (mRingBufferFormat p) else 1))))"
  using assms
  by (auto simp: CreateConverterAndConversionBuffer_def Let_def perform_def
        split: option.splits if_splits)

lemma CreateConverterAndConversionBuffer_keeps:
  assumes "CreateConverterAndConversionBuffer a p = Some (created, q)"
  shows "mRingBufferFormat q = mRingBufferFormat p \<and> mDecoderQueue q = mDecoderQueue p \<and>
         mActiveDecoders q = mActiveDecoders p \<and>
         effects q = effects p
           @ (case mConverter p of None \<Rightarrow> [] | Some c \<Rightarrow> [AudioConverterDisposeCall c])
           @ [AudioConverterNewCall (mRingBufferFormat p) (mStreamVirtualFormat p)]"
  using assms
  by (auto simp: CreateConverterAndConversionBuffer_def Let_def perform_def
        split: option.splits if_splits)

lemma Enqueue_set_up:
  "GetCurrentDecoderState p = None \<and> mDecoderQueue p = [] \<Longrightarrow>
     Enqueue a 0 lockResult2 decoder p =
       (case CreateConverterAndConversionBuffer a (p\<lparr>mRingBufferFormat := GetFormat decoder\<rparr>) of
          None \<Rightarrow> None
        | Some (created, q) \<Rightarrow>
            Some (push_back lockResult2 decoder
                    (perform (RingBufferAllocate (mChannelsPerFrame (mRingBufferFormat q))
                                (mBytesPerFrame (mRingBufferFormat q)) RING_BUFFER_SIZE_FRAMES) q)))"
  by (simp add: Enqueue_def Let_def split: option.splits prod.splits)

lemma Enqueue_joined:
  "\<not> (GetCurrentDecoderState p = None \<and> mDecoderQueue p = []) \<Longrightarrow>
     Enqueue a 0 lockResult2 decoder p =
       (if GetFormat decoder = mRingBufferFormat p
        then Some (push_back lockResult2 decoder p) else Some (False, p))"
  by (auto simp: Enqueue_def Let_def)

text \<open>
  C5, as the code has it. If the first \<^verbatim>\<open>pthread_mutex_lock\<close> fails, \<^verbatim>\<open>Enqueue\<close>
  returns false and changes nothing. If the second fails, it returns false and the queue
  is as before. With both locks taken: if there is no current decoder state and the
  queue is empty and \<^verbatim>\<open>CreateConverterAndConversionBuffer\<close>, run on the decoder's format,
  returns, then the decoder's format is \<open>mRingBufferFormat\<close>, the ring buffer is
  allocated for that format's channels and bytes per frame with 16384 frames, the decoder
  is appended, the decoder semaphore is signalled after these calls, and the result is
  true; and if \<^verbatim>\<open>CreateConverterAndConversionBuffer\<close> returned true, the converter
  is the one the platform made from the decoder's format to the stream's virtual format,
  and the conversion buffer is allocated. Otherwise the result is true exactly when the
  decoder's format equals \<open>mRingBufferFormat\<close>, in which case the decoder is appended
  and the semaphore signalled and nothing else changes, and on a mismatch the player is
  unchanged.
\<close>

theorem Enqueue_result:
  "(lockResult1 \<noteq> 0 \<longrightarrow> Enqueue a lockResult1 lockResult2 decoder p = Some (False, p)) \<and>
   (lockResult1 = 0 \<and> lockResult2 \<noteq> 0 \<longrightarrow>
      (\<forall>r. Enqueue a lockResult1 lockResult2 decoder p = Some r \<longrightarrow>
         fst r = False \<and> mDecoderQueue (snd r) = mDecoderQueue p)) \<and>
   (lockResult1 = 0 \<and> lockResult2 = 0 \<and>
    GetCurrentDecoderState p = None \<and> mDecoderQueue p = [] \<longrightarrow>
      (\<forall>created q.
         CreateConverterAndConversionBuffer a (p\<lparr>mRingBufferFormat := GetFormat decoder\<rparr>)
           = Some (created, q) \<longrightarrow>
         Enqueue a lockResult1 lockResult2 decoder p =
           Some (True, q\<lparr>mDecoderQueue := [decoder],
                         effects := effects q @
                           [RingBufferAllocate (mChannelsPerFrame (GetFormat decoder))
                              (mBytesPerFrame (GetFormat decoder)) RING_BUFFER_SIZE_FRAMES,
                            SignalDecoderSemaphore]\<rparr>) \<and>
         mRingBufferFormat q = GetFormat decoder \<and>
         mDecoderQueue q = mDecoderQueue p \<and>
         (created \<longrightarrow>
            mConverter q = Some (newConverter a) \<and>
            AudioConverterNewCall (GetFormat decoder) (mStreamVirtualFormat p) \<in> set (effects q) \<and>
            mConversionBuffer q \<noteq> None))) \<and>
   (lockResult1 = 0 \<and> lockResult2 = 0 \<and>
    \<not> (GetCurrentDecoderState p = None \<and> mDecoderQueue p = []) \<longrightarrow>
      (\<exists>r. Enqueue a lockResult1 lockResult2 decoder p = Some r \<and>
         (fst r = True \<longleftrightarrow> GetFormat decoder = mRingBufferFormat p) \<and>
         (GetFormat decoder = mRingBufferFormat p \<longrightarrow>
            snd r = p\<lparr>mDecoderQueue := mDecoderQueue p @ [decoder],
                      effects := effects p @ [SignalDecoderSemaphore]\<rparr>) \<and>
         (GetFormat decoder \<noteq> mRingBufferFormat p \<longrightarrow> snd r = p)))"
proof -
  have first: "lockResult1 \<noteq> 0 \<longrightarrow> Enqueue a lockResult1 lockResult2 decoder p = Some (False, p)"
    by (simp add: Enqueue_def)
  have second: "lockResult1 = 0 \<and> lockResult2 \<noteq> 0 \<longrightarrow>
      (\<forall>r. Enqueue a lockResult1 lockResult2 decoder p = Some r \<longrightarrow>
         fst r = False \<and> mDecoderQueue (snd r) = mDecoderQueue p)"
  proof (intro impI allI)
    fix r
    assume locks: "lockResult1 = 0 \<and> lockResult2 \<noteq> 0"
      and r: "Enqueue a lockResult1 lockResult2 decoder p = Some r"
    show "fst r = False \<and> mDecoderQueue (snd r) = mDecoderQueue p"
    proof (cases "GetCurrentDecoderState p = None \<and> mDecoderQueue p = []")
      case True
      with locks r obtain created q where
        made: "CreateConverterAndConversionBuffer a (p\<lparr>mRingBufferFormat := GetFormat decoder\<rparr>)
                = Some (created, q)"
        and result: "r = push_back lockResult2 decoder
            (perform (RingBufferAllocate (mChannelsPerFrame (mRingBufferFormat q))
                        (mBytesPerFrame (mRingBufferFormat q)) RING_BUFFER_SIZE_FRAMES) q)"
        by (auto simp: Enqueue_set_up split: option.splits)
      from CreateConverterAndConversionBuffer_keeps [OF made]
      have "mDecoderQueue q = mDecoderQueue p" by simp
      with result locks show ?thesis
        by (simp add: push_back_def perform_def)
    next
      case False
      with locks r show ?thesis
        by (cases "GetFormat decoder = mRingBufferFormat p")
           (auto simp: Enqueue_joined push_back_def)
    qed
  qed
  have set_up: "lockResult1 = 0 \<and> lockResult2 = 0 \<and>
    GetCurrentDecoderState p = None \<and> mDecoderQueue p = [] \<longrightarrow>
      (\<forall>created q.
         CreateConverterAndConversionBuffer a (p\<lparr>mRingBufferFormat := GetFormat decoder\<rparr>)
           = Some (created, q) \<longrightarrow>
         Enqueue a lockResult1 lockResult2 decoder p =
           Some (True, q\<lparr>mDecoderQueue := [decoder],
                         effects := effects q @
                           [RingBufferAllocate (mChannelsPerFrame (GetFormat decoder))
                              (mBytesPerFrame (GetFormat decoder)) RING_BUFFER_SIZE_FRAMES,
                            SignalDecoderSemaphore]\<rparr>) \<and>
         mRingBufferFormat q = GetFormat decoder \<and>
         mDecoderQueue q = mDecoderQueue p \<and>
         (created \<longrightarrow>
            mConverter q = Some (newConverter a) \<and>
            AudioConverterNewCall (GetFormat decoder) (mStreamVirtualFormat p) \<in> set (effects q) \<and>
            mConversionBuffer q \<noteq> None))"
  proof (intro impI allI)
    fix created q
    assume locks: "lockResult1 = 0 \<and> lockResult2 = 0 \<and>
        GetCurrentDecoderState p = None \<and> mDecoderQueue p = []"
      and made: "CreateConverterAndConversionBuffer a (p\<lparr>mRingBufferFormat := GetFormat decoder\<rparr>)
        = Some (created, q)"
    from CreateConverterAndConversionBuffer_keeps [OF made]
    have keeps: "mRingBufferFormat q = GetFormat decoder" "mDecoderQueue q = mDecoderQueue p"
      "AudioConverterNewCall (GetFormat decoder) (mStreamVirtualFormat p) \<in> set (effects q)"
      by simp_all
    have result: "Enqueue a lockResult1 lockResult2 decoder p =
           Some (True, q\<lparr>mDecoderQueue := [decoder],
                         effects := effects q @
                           [RingBufferAllocate (mChannelsPerFrame (GetFormat decoder))
                              (mBytesPerFrame (GetFormat decoder)) RING_BUFFER_SIZE_FRAMES,
                            SignalDecoderSemaphore]\<rparr>)"
      using locks made keeps by (simp add: Enqueue_set_up push_back_def perform_def)
    have built: "created \<longrightarrow> mConverter q = Some (newConverter a) \<and> mConversionBuffer q \<noteq> None"
      using made CreateConverterAndConversionBuffer_made [of a _ q] by auto
    from result keeps built
    show "Enqueue a lockResult1 lockResult2 decoder p =
           Some (True, q\<lparr>mDecoderQueue := [decoder],
                         effects := effects q @
                           [RingBufferAllocate (mChannelsPerFrame (GetFormat decoder))
                              (mBytesPerFrame (GetFormat decoder)) RING_BUFFER_SIZE_FRAMES,
                            SignalDecoderSemaphore]\<rparr>) \<and>
         mRingBufferFormat q = GetFormat decoder \<and>
         mDecoderQueue q = mDecoderQueue p \<and>
         (created \<longrightarrow>
            mConverter q = Some (newConverter a) \<and>
            AudioConverterNewCall (GetFormat decoder) (mStreamVirtualFormat p) \<in> set (effects q) \<and>
            mConversionBuffer q \<noteq> None)"
      by blast
  qed
  have joined: "lockResult1 = 0 \<and> lockResult2 = 0 \<and>
    \<not> (GetCurrentDecoderState p = None \<and> mDecoderQueue p = []) \<longrightarrow>
      (\<exists>r. Enqueue a lockResult1 lockResult2 decoder p = Some r \<and>
         (fst r = True \<longleftrightarrow> GetFormat decoder = mRingBufferFormat p) \<and>
         (GetFormat decoder = mRingBufferFormat p \<longrightarrow>
            snd r = p\<lparr>mDecoderQueue := mDecoderQueue p @ [decoder],
                      effects := effects p @ [SignalDecoderSemaphore]\<rparr>) \<and>
         (GetFormat decoder \<noteq> mRingBufferFormat p \<longrightarrow> snd r = p))"
    by (cases "GetFormat decoder = mRingBufferFormat p")
       (auto simp: Enqueue_joined push_back_def perform_def)
  from first second set_up joined show ?thesis by blast
qed

text \<open>
  With no current decoder state and an empty queue, \<^verbatim>\<open>Enqueue\<close> returns false when
  \<^verbatim>\<open>pthread_mutex_lock\<close> returns \<^verbatim>\<open>EINVAL\<close> (22); and when the platform refuses to
  make the converter, it returns true with the decoder appended, no converter and no
  conversion buffer.
\<close>

theorem Enqueue_lock_failure:
  "GetCurrentDecoderState new_player = None \<and> mDecoderQueue new_player = [] \<and>
   Enqueue converter_made 22 0 (decoder_at 1 pcm_44100 True) new_player
     = Some (False, new_player) \<and>
   Enqueue converter_refused 0 0 (decoder_at 1 pcm_44100 True) new_player
     = Some (True,
             new_player\<lparr>mDecoderQueue := [decoder_at 1 pcm_44100 True],
                        effects := [AudioConverterNewCall pcm_44100 pcm_48000,
                                    RingBufferAllocate 2 8 RING_BUFFER_SIZE_FRAMES,
                                    SignalDecoderSemaphore]\<rparr>) \<and>
   mConverter (new_player\<lparr>mDecoderQueue := [decoder_at 1 pcm_44100 True]\<rparr>) = None \<and>
   mConversionBuffer (new_player\<lparr>mDecoderQueue := [decoder_at 1 pcm_44100 True]\<rparr>) = None"
  by (simp add: Enqueue_def CreateConverterAndConversionBuffer_def push_back_def perform_def
        Let_def GetCurrentDecoderState_def kActiveDecoderArraySize_def current_scan_8
        current_pass_def new_player_def converter_refused_def converter_made_def noErr_def
        decoder_at_def pcm_44100_def)

lemma replicate_2: "replicate 2 x = [x, x]"
  by (simp add: numeral_2_eq_2)

lemma CreateConverterAndConversionBuffer_new_player:
  "CreateConverterAndConversionBuffer converter_made
     (new_player\<lparr>mRingBufferFormat := GetFormat (decoder_at 1 pcm_44100 True)\<rparr>)
   = Some (True,
           new_player\<lparr>mConverter := Some 7,
                      mConversionBuffer :=
                        Some [\<lparr>mNumberChannels = 1, mDataByteSize = 4096\<rparr>,
                              \<lparr>mNumberChannels = 1, mDataByteSize = 4096\<rparr>],
                      effects := [AudioConverterNewCall pcm_44100 pcm_48000]\<rparr>)"
  by (simp add: CreateConverterAndConversionBuffer_def allocateBufferList_def perform_def
        Let_def new_player_def converter_made_def noErr_def kAudioHardwareNoError_def
        kAudioFormatFlagIsNonInterleaved_def decoder_at_def pcm_44100_def pcm_48000_def
        replicate_2)

theorem Enqueue_result_witness:
  "Enqueue converter_made 0 0 (decoder_at 1 pcm_44100 True) new_player =
     Some (True,
           new_player\<lparr>mConverter := Some 7,
                      mConversionBuffer :=
                        Some [\<lparr>mNumberChannels = 1, mDataByteSize = 4096\<rparr>,
                              \<lparr>mNumberChannels = 1, mDataByteSize = 4096\<rparr>],
                      mDecoderQueue := [decoder_at 1 pcm_44100 True],
                      effects := [AudioConverterNewCall pcm_44100 pcm_48000,
                                  RingBufferAllocate 2 8 RING_BUFFER_SIZE_FRAMES,
                                  SignalDecoderSemaphore]\<rparr>) \<and>
   Enqueue converter_made 0 0 (decoder_at 2 pcm_44100 False) one_queued =
     Some (True, one_queued\<lparr>mDecoderQueue :=
                              [decoder_at 1 pcm_44100 True, decoder_at 2 pcm_44100 False],
                            effects := [SignalDecoderSemaphore]\<rparr>) \<and>
   Enqueue converter_made 0 0 (decoder_at 3 pcm_48000 True) one_queued = Some (False, one_queued)"
proof -
  have empty: "GetCurrentDecoderState new_player = None \<and> mDecoderQueue new_player = []"
    by (simp add: GetCurrentDecoderState_def kActiveDecoderArraySize_def current_scan_8
          current_pass_def new_player_def)
  from Enqueue_result [of 0 converter_made 0 "decoder_at 1 pcm_44100 True" new_player] empty
  have "\<forall>created q.
      CreateConverterAndConversionBuffer converter_made
        (new_player\<lparr>mRingBufferFormat := GetFormat (decoder_at 1 pcm_44100 True)\<rparr>)
        = Some (created, q) \<longrightarrow>
      Enqueue converter_made 0 0 (decoder_at 1 pcm_44100 True) new_player =
        Some (True, q\<lparr>mDecoderQueue := [decoder_at 1 pcm_44100 True],
                      effects := effects q @
                        [RingBufferAllocate (mChannelsPerFrame (GetFormat (decoder_at 1 pcm_44100 True)))
                           (mBytesPerFrame (GetFormat (decoder_at 1 pcm_44100 True)))
                           RING_BUFFER_SIZE_FRAMES,
                         SignalDecoderSemaphore]\<rparr>)"
    by blast
  with CreateConverterAndConversionBuffer_new_player
  have "Enqueue converter_made 0 0 (decoder_at 1 pcm_44100 True) new_player =
        Some (True,
              (new_player\<lparr>mConverter := Some 7,
                      mConversionBuffer :=
                        Some [\<lparr>mNumberChannels = 1, mDataByteSize = 4096\<rparr>,
                              \<lparr>mNumberChannels = 1, mDataByteSize = 4096\<rparr>],
                      effects := [AudioConverterNewCall pcm_44100 pcm_48000]\<rparr>)
                \<lparr>mDecoderQueue := [decoder_at 1 pcm_44100 True],
                 effects := effects (new_player\<lparr>mConverter := Some 7,
                      mConversionBuffer :=
                        Some [\<lparr>mNumberChannels = 1, mDataByteSize = 4096\<rparr>,
                              \<lparr>mNumberChannels = 1, mDataByteSize = 4096\<rparr>],
                      effects := [AudioConverterNewCall pcm_44100 pcm_48000]\<rparr>) @
                        [RingBufferAllocate (mChannelsPerFrame (GetFormat (decoder_at 1 pcm_44100 True)))
                           (mBytesPerFrame (GetFormat (decoder_at 1 pcm_44100 True)))
                           RING_BUFFER_SIZE_FRAMES,
                         SignalDecoderSemaphore]\<rparr>)"
    by blast
  then have set_up: "Enqueue converter_made 0 0 (decoder_at 1 pcm_44100 True) new_player =
     Some (True,
           new_player\<lparr>mConverter := Some 7,
                      mConversionBuffer :=
                        Some [\<lparr>mNumberChannels = 1, mDataByteSize = 4096\<rparr>,
                              \<lparr>mNumberChannels = 1, mDataByteSize = 4096\<rparr>],
                      mDecoderQueue := [decoder_at 1 pcm_44100 True],
                      effects := [AudioConverterNewCall pcm_44100 pcm_48000,
                                  RingBufferAllocate 2 8 RING_BUFFER_SIZE_FRAMES,
                                  SignalDecoderSemaphore]\<rparr>)"
    by (simp add: decoder_at_def pcm_44100_def)
  have q: "\<not> (GetCurrentDecoderState one_queued = None \<and> mDecoderQueue one_queued = [])"
    by (simp add: one_queued_def)
  have same: "GetFormat (decoder_at 2 pcm_44100 False) = mRingBufferFormat one_queued"
    by (simp add: one_queued_def new_player_def decoder_at_def)
  have other: "GetFormat (decoder_at 3 pcm_48000 True) \<noteq> mRingBufferFormat one_queued"
    by (simp add: one_queued_def new_player_def decoder_at_def pcm_48000_def pcm_44100_def)
  have start: "mDecoderQueue one_queued = [decoder_at 1 pcm_44100 True] \<and> effects one_queued = []"
    by (simp add: one_queued_def new_player_def)
  from Enqueue_result [of 0 converter_made 0 "decoder_at 2 pcm_44100 False" one_queued] q same start
  have joined: "Enqueue converter_made 0 0 (decoder_at 2 pcm_44100 False) one_queued =
     Some (True, one_queued\<lparr>mDecoderQueue :=
                              [decoder_at 1 pcm_44100 True, decoder_at 2 pcm_44100 False],
                            effects := [SignalDecoderSemaphore]\<rparr>)"
    by (auto simp: prod_eq_iff)
  from Enqueue_result [of 0 converter_made 0 "decoder_at 3 pcm_48000 True" one_queued] q other
  have refused: "Enqueue converter_made 0 0 (decoder_at 3 pcm_48000 True) one_queued
      = Some (False, one_queued)"
    by (auto simp: prod_eq_iff)
  from set_up joined refused show ?thesis by blast
qed

subsection \<open>The seek request in the decoding loop\<close>

lemma modify_state_slot:
  "mActiveDecoders p i = Some s \<Longrightarrow>
     mActiveDecoders (modify_state i f p) = (mActiveDecoders p)(i := Some (f s))"
  by (simp add: modify_state_def set_state_def)


text \<open>
  C3, as the code has it. For the worker's state in slot \<open>i\<close> with a request pending:
  once the request is cleared the slot's \<open>mFrameToSeek\<close> is \<open>-1\<close> and no counter
  and no call has changed yet. Then, exactly when the decoder's \<^verbatim>\<open>SeekToFrame\<close> returned
  a frame other than \<open>-1\<close>: the state's frames rendered are that frame,
  \<open>mFramesDecoded\<close> has grown by that frame minus the decoder's frame before the seek,
  \<open>mFramesRendered\<close> equals \<open>mFramesDecoded\<close>, and the converter was reset and
  \<^verbatim>\<open>ResetOutput\<close> called, in this order. When it returned \<open>-1\<close>, the counters and the
  calls are as before. The test is \<open>\<noteq> -1\<close>, not \<open>\<ge> 0\<close>.
\<close>

theorem service_seek_counters:
  assumes "mActiveDecoders p i = Some s" and "mFrameToSeek s \<noteq> - 1"
  shows "mActiveDecoders (seek_clear_request i p) i = Some (s\<lparr>mFrameToSeek := - 1\<rparr>) \<and>
         mFramesDecoded (seek_clear_request i p) = mFramesDecoded p \<and>
         mFramesRendered (seek_clear_request i p) = mFramesRendered p \<and>
         effects (seek_clear_request i p) = effects p \<and>
         (newFrame a \<noteq> - 1 \<longrightarrow>
            mActiveDecoders (service_seek a i p) i =
              Some (s\<lparr>mFramesRenderedD := newFrame a, mFrameToSeek := - 1\<rparr>) \<and>
            mFramesDecoded (service_seek a i p) =
              mFramesDecoded p + (newFrame a - currentFrameBeforeSeeking a) \<and>
            mFramesRendered (service_seek a i p) = mFramesDecoded (service_seek a i p) \<and>
            effects (service_seek a i p) = effects p @ [AudioConverterReset, ResetOutputCall]) \<and>
         (newFrame a = - 1 \<longrightarrow>
            mActiveDecoders (service_seek a i p) i = Some (s\<lparr>mFrameToSeek := - 1\<rparr>) \<and>
            mFramesDecoded (service_seek a i p) = mFramesDecoded p \<and>
            mFramesRendered (service_seek a i p) = mFramesRendered p \<and>
            effects (service_seek a i p) = effects p)"
  using assms
  by (auto simp: service_seek_def seek_clear_request_def seek_update_counters_def
        modify_state_def set_state_def OSAtomicCompareAndSwap64Barrier_def ResetOutput_def
        perform_def Let_def)


text \<open>
  A decoder that answers the seek with \<open>-2\<close>: the frame is negative, and all three
  counters change.
\<close>

theorem service_seek_negative_frame:
  "newFrame (seek_answered (- 2)) < 0 \<and>
   mFramesDecoded seek_pending = 4096 \<and>
   mFramesDecoded (service_seek (seek_answered (- 2)) 0 seek_pending) = - 2 \<and>
   mFramesRendered seek_pending = 1000 \<and>
   mFramesRendered (service_seek (seek_answered (- 2)) 0 seek_pending) = - 2 \<and>
   map_option mFramesRenderedD (mActiveDecoders seek_pending 0) = Some 1000 \<and>
   map_option mFramesRenderedD
     (mActiveDecoders (service_seek (seek_answered (- 2)) 0 seek_pending) 0) = Some (- 2)"
  by (simp add: service_seek_def seek_clear_request_def seek_update_counters_def
        modify_state_def set_state_def OSAtomicCompareAndSwap64Barrier_def ResetOutput_def
        perform_def Let_def seek_answered_def seek_pending_def new_player_def state_of_def)


theorem service_seek_counters_witness:
  "mFramesDecoded seek_pending = 4096 \<and> mFramesRendered seek_pending = 1000 \<and>
   mActiveDecoders (service_seek (seek_answered 700) 0 seek_pending) 0
     = Some ((state_of 1 0 10000 1000)\<lparr>mFramesRenderedD := 700\<rparr>) \<and>
   mFramesDecoded (service_seek (seek_answered 700) 0 seek_pending) = 700 \<and>
   mFramesRendered (service_seek (seek_answered 700) 0 seek_pending) = 700 \<and>
   effects (service_seek (seek_answered 700) 0 seek_pending) = [AudioConverterReset, ResetOutputCall] \<and>
   mFramesDecoded (service_seek (seek_answered (- 1)) 0 seek_pending) = 4096 \<and>
   mFramesRendered (service_seek (seek_answered (- 1)) 0 seek_pending) = 1000"
proof -
  have slot: "mActiveDecoders seek_pending 0 = Some ((state_of 1 0 10000 1000)\<lparr>mFrameToSeek := 700\<rparr>)"
    by (simp add: seek_pending_def new_player_def)
  have pending: "mFrameToSeek ((state_of 1 0 10000 1000)\<lparr>mFrameToSeek := 700\<rparr>) \<noteq> - 1"
    by simp
  have facts: "mFramesDecoded seek_pending = 4096 \<and> mFramesRendered seek_pending = 1000 \<and>
      effects seek_pending = [] \<and> newFrame (seek_answered 700) = 700 \<and>
      newFrame (seek_answered (- 1)) = - 1 \<and> currentFrameBeforeSeeking (seek_answered 700) = 4096"
    by (simp add: seek_pending_def new_player_def seek_answered_def)
  from service_seek_counters [OF slot pending, of "seek_answered 700"]
       service_seek_counters [OF slot pending, of "seek_answered (- 1)"] facts
  show ?thesis
    by (simp add: state_of_def)
qed

subsection \<open>The end of a stream in the decoding loop\<close>

lemma service_seek_slot:
  "mActiveDecoders p i = Some s \<Longrightarrow>
     \<exists>s'. mActiveDecoders (service_seek a i p) i = Some s' \<and> mDecoder s' = mDecoder s"
  by (auto simp: service_seek_def seek_clear_request_def seek_update_counters_def
        modify_state_def set_state_def OSAtomicCompareAndSwap64Barrier_def ResetOutput_def
        perform_def Let_def)


text \<open>
  C7. A pass of the decoding loop in which the ring buffer has room for a chunk and
  \<^verbatim>\<open>ReadAudio\<close> returns 0 frames ends the loop, leaves the worker's state with
  \<open>mKeepDecoding = False\<close> and with \<open>mTotalFrames\<close> equal to
  \<^verbatim>\<open>startingFrameNumber\<close>, the decoder's frame before that read, whatever the total was,
  and its last call is the decoding-finished callback of the state's decoder. With no
  seek pending nothing else changes but the decoding-started callback before it, made
  when \<^verbatim>\<open>startingFrameNumber\<close> is 0.
\<close>

theorem decode_pass_end_of_stream:
  assumes "mActiveDecoders p i = Some s"
    and "RING_BUFFER_WRITE_CHUNK_SIZE_FRAMES
           \<le> UInt32 (RING_BUFFER_SIZE_FRAMES - (mFramesDecoded p - mFramesRendered p))"
    and "framesDecoded a = 0"
  shows "fst (decode_pass a i p) = False \<and>
         (\<exists>s'. mActiveDecoders (snd (decode_pass a i p)) i = Some s' \<and>
               mKeepDecoding s' = False \<and> mTotalFrames s' = startingFrameNumber a) \<and>
         last (effects (snd (decode_pass a i p)))
           = PerformDecodingFinishedCallback (decoderAddress (mDecoder s)) \<and>
         (mFrameToSeek s = - 1 \<longrightarrow>
            snd (decode_pass a i p) =
              p\<lparr>mActiveDecoders := (mActiveDecoders p)
                   (i := Some (s\<lparr>mKeepDecoding := False,
                                  mTotalFrames := startingFrameNumber a\<rparr>)),
                effects := effects p @
                  (if 0 = startingFrameNumber a
                   then [PerformDecodingStartedCallback (decoderAddress (mDecoder s))] else [])
                  @ [PerformDecodingFinishedCallback (decoderAddress (mDecoder s))]\<rparr>)"
proof -
  define p1 where "p1 = (if - 1 \<noteq> mFrameToSeek s then service_seek a i p else p)"
  define p2 where "p2 = (if 0 = startingFrameNumber a
      then perform (PerformDecodingStartedCallback (decoderAddress (mDecoder s))) p1 else p1)"
  define p4 where "p4 = perform (PerformDecodingFinishedCallback (decoderAddress (mDecoder s))) p2"
  have pass: "decode_pass a i p =
      (False, modify_state i
         (\<lambda>s. s\<lparr>mKeepDecoding := False, mTotalFrames := startingFrameNumber a\<rparr>) p4)"
    using assms by (simp add: decode_pass_def Let_def p1_def p2_def p4_def)
  have "\<exists>s1. mActiveDecoders p1 i = Some s1"
    using assms(1) service_seek_slot [of p i s a] by (cases "- 1 \<noteq> mFrameToSeek s") (auto simp: p1_def)
  then obtain s1 where s1: "mActiveDecoders p1 i = Some s1" ..
  then have s4: "mActiveDecoders p4 i = Some s1"
    by (simp add: p4_def p2_def perform_def)
  have last: "last (effects (modify_state i f p4))
      = PerformDecodingFinishedCallback (decoderAddress (mDecoder s))" for f
    using s4 by (simp add: modify_state_def set_state_def p4_def perform_def)
  have exact: "mFrameToSeek s = - 1 \<longrightarrow>
            snd (decode_pass a i p) =
              p\<lparr>mActiveDecoders := (mActiveDecoders p)
                   (i := Some (s\<lparr>mKeepDecoding := False,
                                  mTotalFrames := startingFrameNumber a\<rparr>)),
                effects := effects p @
                  (if 0 = startingFrameNumber a
                   then [PerformDecodingStartedCallback (decoderAddress (mDecoder s))] else [])
                  @ [PerformDecodingFinishedCallback (decoderAddress (mDecoder s))]\<rparr>"
    using assms(1)
    by (simp add: pass p4_def p2_def p1_def perform_def modify_state_def set_state_def)
  from pass s4 last exact show ?thesis
    by (simp add: modify_state_slot)
qed


theorem decode_pass_end_of_stream_witness:
  "mTotalFrames (state_of 2 1000 5000 0) = 5000 \<and>
   decode_pass end_of_stream 1 (two_decoders 1000) =
     (False,
      (two_decoders 1000)
        \<lparr>mActiveDecoders := (mActiveDecoders (two_decoders 1000))
           (1 := Some ((state_of 2 1000 5000 0)\<lparr>mKeepDecoding := False, mTotalFrames := 4000\<rparr>)),
         effects := [PerformDecodingFinishedCallback 2]\<rparr>)"
proof -
  have slot: "mActiveDecoders (two_decoders 1000) 1 = Some (state_of 2 1000 5000 0)"
    by (simp add: two_decoders_def new_player_def)
  have room: "RING_BUFFER_WRITE_CHUNK_SIZE_FRAMES
      \<le> UInt32 (RING_BUFFER_SIZE_FRAMES
                  - (mFramesDecoded (two_decoders 1000) - mFramesRendered (two_decoders 1000)))"
    by (simp add: two_decoders_def new_player_def UInt32_def RING_BUFFER_SIZE_FRAMES_def
          RING_BUFFER_WRITE_CHUNK_SIZE_FRAMES_def)
  have eos: "framesDecoded end_of_stream = 0"
    by (simp add: end_of_stream_def)
  have facts: "mFrameToSeek (state_of 2 1000 5000 0) = - 1 \<and>
      startingFrameNumber end_of_stream = 4000 \<and> effects (two_decoders 1000) = [] \<and>
      decoderAddress (mDecoder (state_of 2 1000 5000 0)) = 2 \<and>
      mTotalFrames (state_of 2 1000 5000 0) = 5000"
    by (simp add: state_of_def end_of_stream_def two_decoders_def new_player_def decoder_at_def)
  from decode_pass_end_of_stream [OF slot room eos] facts show ?thesis
    by (simp add: prod_eq_iff)
qed


subsection \<open>The frames of a render pass, distributed\<close>

text \<open>
  C2 at two joined decoders. The pass rendered 1000 frames; the first decoder had 300
  frames left and the second 5000. The loop gives 300 frames to the first and then
  \<open>min 5000 1000 = 1000\<close> frames to the second, 1300 frames in all, and ends with the
  tally \<^verbatim>\<open>framesRemainingToDistribute\<close> at \<open>-300\<close>.
\<close>

theorem post_rendering_attributes_too_much:
  "mFramesRenderedLastPass (two_decoders 1000) = 1000 \<and>
   map_option mFramesRenderedD (mActiveDecoders (two_decoders 1000) 0) = Some 700 \<and>
   map_option mFramesRenderedD (mActiveDecoders (two_decoders 1000) 1) = Some 0 \<and>
   map_option mFramesRenderedD (mActiveDecoders (snd (post_rendering (two_decoders 1000))) 0)
     = Some 1000 \<and>
   map_option mFramesRenderedD (mActiveDecoders (snd (post_rendering (two_decoders 1000))) 1)
     = Some 1000 \<and>
   fst (post_rendering (two_decoders 1000)) = - 300"
  by (simp add: post_rendering_def GetCurrentDecoderState_def
        GetDecoderStateStartingAfterTimeStamp_def kActiveDecoderArraySize_def
        eval_nat_numeral current_pass_def after_pass_def attribute_frames_def Let_def
        set_state_def perform_def two_decoders_def new_player_def state_of_def decoder_at_def)

subsection \<open>What does hold of the distribution\<close>

text \<open>
  \<^verbatim>\<open>GetDecoderStateStartingAfterTimeStamp\<close> returns none exactly when every slot is
  empty, ready for collection, or not later than the time stamp; what it returns
  otherwise is the state of a slot, not ready for collection and later than the time
  stamp, and no such state has a smaller time stamp. So the states the loop in
  \<^verbatim>\<open>Render\<close> visits have strictly growing time stamps.
\<close>

lemma after_pass_None:
  "after_pass slots ts n r = None \<longleftrightarrow>
     r = None \<and> (\<forall>s. slots n = Some s \<longrightarrow> mReadyForCollection s \<or> mTimeStamp s \<le> ts)"
  by (auto simp: after_pass_def split: option.splits)

lemma after_scan_None:
  "after_scan slots ts n = None \<longleftrightarrow>
     (\<forall>k<n. \<forall>s. slots k = Some s \<longrightarrow> mReadyForCollection s \<or> mTimeStamp s \<le> ts)"
  by (induction n) (auto simp: after_pass_None less_Suc_eq)

lemma after_scan_least:
  "after_scan slots ts n = Some (i, s) \<Longrightarrow>
     (\<forall>k<n. \<forall>t. slots k = Some t \<and> \<not> mReadyForCollection t \<and> ts < mTimeStamp t
        \<longrightarrow> mTimeStamp s \<le> mTimeStamp t)"
proof (induction n arbitrary: i s)
  case 0
  then show ?case by simp
next
  case (Suc n)
  show ?case
  proof (cases "after_scan slots ts n")
    case None
    then have "\<forall>k<n. \<forall>t. slots k = Some t \<longrightarrow> mReadyForCollection t \<or> mTimeStamp t \<le> ts"
      by (simp add: after_scan_None)
    moreover from Suc.prems None have "slots n = Some s"
      by (auto simp: after_pass_def split: option.splits if_splits)
    ultimately show ?thesis by (fastforce simp: less_Suc_eq)
  next
    case (Some jr)
    obtain j r where jr: "jr = (j, r)" by (cases jr)
    from Suc.IH [of j r] Some jr
    have IH: "\<forall>k<n. \<forall>t. slots k = Some t \<and> \<not> mReadyForCollection t \<and> ts < mTimeStamp t
        \<longrightarrow> mTimeStamp r \<le> mTimeStamp t"
      by simp
    from Suc.prems Some jr
    consider (keep) "s = r"
        "\<forall>t. slots n = Some t \<and> \<not> mReadyForCollection t \<and> ts < mTimeStamp t
           \<longrightarrow> mTimeStamp r \<le> mTimeStamp t"
      | (take) "slots n = Some s" "mTimeStamp s < mTimeStamp r"
      by (auto simp: after_pass_def split: option.splits if_splits)
    then show ?thesis
    proof cases
      case keep
      with IH show ?thesis by (auto simp: less_Suc_eq)
    next
      case take
      with IH show ?thesis by (fastforce simp: less_Suc_eq)
    qed
  qed
qed

theorem GetDecoderStateStartingAfterTimeStamp_next:
  "(GetDecoderStateStartingAfterTimeStamp p ts = None \<longleftrightarrow>
      (\<forall>k<kActiveDecoderArraySize. \<forall>t. mActiveDecoders p k = Some t \<longrightarrow>
         mReadyForCollection t \<or> mTimeStamp t \<le> ts)) \<and>
   (\<forall>i s. GetDecoderStateStartingAfterTimeStamp p ts = Some (i, s) \<longrightarrow>
      i < kActiveDecoderArraySize \<and> mActiveDecoders p i = Some s \<and>
      \<not> mReadyForCollection s \<and> ts < mTimeStamp s \<and>
      (\<forall>k<kActiveDecoderArraySize. \<forall>t.
         mActiveDecoders p k = Some t \<and> \<not> mReadyForCollection t \<and> ts < mTimeStamp t
           \<longrightarrow> mTimeStamp s \<le> mTimeStamp t))"
  using after_scan_None [of "mActiveDecoders p" ts kActiveDecoderArraySize]
    after_scan_Some [of "mActiveDecoders p" ts kActiveDecoderArraySize]
    after_scan_least [of "mActiveDecoders p" ts kActiveDecoderArraySize]
  unfolding GetDecoderStateStartingAfterTimeStamp_def by blast

lemma after_scan_8:
  "after_scan slots ts 8 =
     after_pass slots ts 7 (after_pass slots ts 6 (after_pass slots ts 5 (after_pass slots ts 4
       (after_pass slots ts 3 (after_pass slots ts 2 (after_pass slots ts 1
         (after_pass slots ts 0 None)))))))"
  by (simp add: eval_nat_numeral)

theorem GetDecoderStateStartingAfterTimeStamp_next_witness:
  "GetDecoderStateStartingAfterTimeStamp (two_decoders 1000) 0 = Some (1, state_of 2 1000 5000 0) \<and>
   (0::int) < mTimeStamp (state_of 2 1000 5000 0) \<and>
   GetDecoderStateStartingAfterTimeStamp (two_decoders 1000) 1000 = None"
proof -
  have a: "GetDecoderStateStartingAfterTimeStamp (two_decoders 1000) 0 = Some (1, state_of 2 1000 5000 0)"
    by (simp add: GetDecoderStateStartingAfterTimeStamp_def kActiveDecoderArraySize_def
          after_scan_8 after_pass_def two_decoders_def new_player_def state_of_def)
  have b: "GetDecoderStateStartingAfterTimeStamp (two_decoders 1000) 1000 = None"
    by (simp add: GetDecoderStateStartingAfterTimeStamp_def kActiveDecoderArraySize_def
          after_scan_8 after_pass_def two_decoders_def new_player_def state_of_def)
  from GetDecoderStateStartingAfterTimeStamp_next [of "two_decoders 1000" 0] a
  have "(0::int) < mTimeStamp (state_of 2 1000 5000 0)" by blast
  with a b show ?thesis by blast
qed

text \<open>
  The housekeeping of \<^verbatim>\<open>Render\<close> keeps every decoder state's total and time stamp,
  and a state whose frames rendered it changes has them at or below its total
  afterwards: no decoder is advanced past its total frames.
\<close>

lemma within_total_refl: "within_total p p"
  by (auto simp: within_total_def split: option.splits)

lemma within_total_trans: "within_total p q \<Longrightarrow> within_total q r \<Longrightarrow> within_total p r"
  unfolding within_total_def
  by (intro allI, erule_tac x = k in allE, erule_tac x = k in allE)
     (auto split: option.splits)

lemma attribute_frames_within:
  "mActiveDecoders p i = Some s \<Longrightarrow> within_total p (snd (attribute_frames i s p))"
  by (auto simp: within_total_def attribute_frames_def Let_def set_state_def perform_def
        split: option.splits)

lemma distribute_within:
  "(\<forall>i s. d = Some (i, s) \<longrightarrow> mActiveDecoders p i = Some s) \<Longrightarrow>
     within_total p (snd (distribute r d p))"
proof (induction r d p rule: distribute.induct)
  case (1 r p)
  then show ?case by (simp add: within_total_refl)
next
  case (2 r i s p)
  let ?q = "snd (attribute_frames i s p)"
  from "2.prems" have slot: "mActiveDecoders p i = Some s" by simp
  then have first: "within_total p ?q" by (rule attribute_frames_within)
  show ?case
  proof (cases "0 = r - fst (attribute_frames i s p)")
    case True
    with first show ?thesis by (simp add: Let_def)
  next
    case False
    have next_ok: "\<forall>j t. GetDecoderStateStartingAfterTimeStamp ?q (mTimeStamp s) = Some (j, t)
        \<longrightarrow> mActiveDecoders ?q j = Some t"
      using after_scan_Some [of "mActiveDecoders ?q" "mTimeStamp s" kActiveDecoderArraySize]
      by (auto simp: GetDecoderStateStartingAfterTimeStamp_def)
    from "2.IH" [OF refl refl refl False next_ok]
    have "within_total ?q
      (snd (distribute (r - fst (attribute_frames i s p))
              (GetDecoderStateStartingAfterTimeStamp ?q (mTimeStamp s)) ?q))" .
    with first False show ?thesis
      by (auto simp: Let_def intro: within_total_trans)
  qed
qed

theorem post_rendering_within_total:
  "\<forall>k t'. mActiveDecoders (snd (post_rendering p)) k = Some t' \<longrightarrow>
     (\<exists>t. mActiveDecoders p k = Some t \<and> mTotalFrames t' = mTotalFrames t \<and>
          mTimeStamp t' = mTimeStamp t \<and>
          (mFramesRenderedD t' = mFramesRenderedD t \<or> mFramesRenderedD t' \<le> mTotalFrames t))"
proof -
  have "\<forall>i s. GetCurrentDecoderState p = Some (i, s) \<longrightarrow> mActiveDecoders p i = Some s"
    using current_scan_Some [of "mActiveDecoders p" kActiveDecoderArraySize]
    by (auto simp: GetCurrentDecoderState_def)
  then have "within_total p (snd (post_rendering p))"
    by (simp add: post_rendering_def distribute_within within_total_refl)
  then show ?thesis
    unfolding within_total_def
    by (intro allI impI, erule_tac x = k in allE) simp
qed

theorem post_rendering_within_total_witness:
  "mActiveDecoders (snd (post_rendering (two_decoders 1000))) 1
     = Some ((state_of 2 1000 5000 0)\<lparr>mFramesRenderedD := 1000\<rparr>) \<and>
   mFramesRenderedD ((state_of 2 1000 5000 0)\<lparr>mFramesRenderedD := 1000\<rparr>)
     \<le> mTotalFrames (state_of 2 1000 5000 0)"
proof -
  have after: "mActiveDecoders (snd (post_rendering (two_decoders 1000))) 1
     = Some ((state_of 2 1000 5000 0)\<lparr>mFramesRenderedD := 1000\<rparr>)"
    by (simp add: post_rendering_def GetCurrentDecoderState_def
        GetDecoderStateStartingAfterTimeStamp_def kActiveDecoderArraySize_def
        eval_nat_numeral current_pass_def after_pass_def attribute_frames_def Let_def
        set_state_def perform_def two_decoders_def new_player_def state_of_def decoder_at_def)
  have before: "mActiveDecoders (two_decoders 1000) 1 = Some (state_of 2 1000 5000 0) \<and>
      mFramesRenderedD ((state_of 2 1000 5000 0)\<lparr>mFramesRenderedD := 1000\<rparr>)
        \<noteq> mFramesRenderedD (state_of 2 1000 5000 0)"
    by (simp add: two_decoders_def new_player_def state_of_def)
  from post_rendering_within_total [of "two_decoders 1000"] after before
  have "mFramesRenderedD ((state_of 2 1000 5000 0)\<lparr>mFramesRenderedD := 1000\<rparr>)
     \<le> mTotalFrames (state_of 2 1000 5000 0)"
    by force
  with after show ?thesis by blast
qed

subsection \<open>A request that is already pending\<close>

text \<open>
  With no other thread writing the request slot during the call, \<^verbatim>\<open>SeekToFrame\<close>
  returns true for a current decoder that supports seeking whatever the slot holds, and
  the slot holds the new frame: a request that is pending is replaced, not refused.
\<close>

theorem SeekToFrame_replaces_pending:
  assumes "GetCurrentDecoderState p = Some (i, s)" and "SupportsSeeking (mDecoder s)"
  shows "fst (SeekToFrame frame None p) = True \<and>
         mActiveDecoders (snd (SeekToFrame frame None p)) i = Some (s\<lparr>mFrameToSeek := frame\<rparr>)"
  using assms
  by (simp add: SeekToFrame_def Let_def OSAtomicCompareAndSwap64Barrier_def set_state_def
        perform_def)

theorem SeekToFrame_replaces_pending_witness:
  "mFrameToSeek ((state_of 1 0 10000 1000)\<lparr>mFrameToSeek := 700\<rparr>) = 700 \<and>
   fst (SeekToFrame 900 None seek_pending) = True \<and>
   mActiveDecoders (snd (SeekToFrame 900 None seek_pending)) 0
     = Some ((state_of 1 0 10000 1000)\<lparr>mFrameToSeek := 900\<rparr>)"
proof -
  have seeking: "SupportsSeeking (mDecoder ((state_of 1 0 10000 1000)\<lparr>mFrameToSeek := 700\<rparr>))"
    by (simp add: state_of_def decoder_at_def)
  from SeekToFrame_replaces_pending [OF seek_pending_current seeking, of 900] show ?thesis
    by simp
qed

end
